theory Spec2Isabelle
  imports Complex_Main "HOL-Library.Word"
begin

section \<open>Python values\<close>

text \<open>
  The exceptions the modelled functions can meet. \<open>Timeout\<close> and \<open>ConnectionError\<close> are
  raised by \<^verbatim>\<open>requests.get\<close>, \<open>JSONDecodeError\<close> by \<^verbatim>\<open>r.json()\<close>; the others are the
  built-in exceptions of the same names.
\<close>

datatype pyerr =
  Timeout | ConnectionError | JSONDecodeError
  | AttributeError | KeyError | IndexError | ValueError | TypeError

definition bindE :: "pyerr + 'a \<Rightarrow> ('a \<Rightarrow> pyerr + 'b) \<Rightarrow> pyerr + 'b" where
  "bindE m f = (case m of Inl e \<Rightarrow> Inl e | Inr x \<Rightarrow> f x)"

section \<open>float64\<close>

text \<open>
  A float64 of IEEE 754 (binary64). The special values are kept apart: \<open>NaN\<close>, the two
  infinities and the negative zero; \<open>Fin r\<close> is the finite value \<open>r\<close>, a rational that
  binary64 represents, and \<open>Fin 0\<close> the positive zero. Every operation below returns such
  a value when its arguments are such values.
\<close>

datatype fl = NaN | PInf | NInf | NZero | Fin rat

definition isnan :: "fl \<Rightarrow> bool" where
  "isnan x = (x = NaN)"

text \<open>The sign bit.\<close>

fun fl_negative :: "fl \<Rightarrow> bool" where
  "fl_negative NaN = False"
| "fl_negative PInf = False"
| "fl_negative NInf = True"
| "fl_negative NZero = True"
| "fl_negative (Fin r) = (r < 0)"

fun fl_is_zero :: "fl \<Rightarrow> bool" where
  "fl_is_zero NZero = True"
| "fl_is_zero (Fin r) = (r = 0)"
| "fl_is_zero _ = False"

fun fl_is_inf :: "fl \<Rightarrow> bool" where
  "fl_is_inf PInf = True"
| "fl_is_inf NInf = True"
| "fl_is_inf _ = False"

text \<open>The rational a finite float stands for (0 for both zeros).\<close>

fun fl_val :: "fl \<Rightarrow> rat" where
  "fl_val (Fin r) = r"
| "fl_val _ = 0"

definition signed_zero :: "bool \<Rightarrow> fl" where
  "signed_zero neg = (if neg then NZero else Fin 0)"

definition signed_inf :: "bool \<Rightarrow> fl" where
  "signed_inf neg = (if neg then NInf else PInf)"

text \<open>A finite result with the sign given separately, which matters only when it is zero.\<close>

definition signed_fin :: "bool \<Rightarrow> rat \<Rightarrow> fl" where
  "signed_fin neg r = (if r = 0 then signed_zero neg else Fin r)"

subsection \<open>Rounding to binary64\<close>

text \<open>Rounding to the nearest integer, ties to the even one.\<close>

definition rint :: "rat \<Rightarrow> int" where
  "rint r =
     (let f = \<lfloor>r\<rfloor>; d = r - of_int f in
      if d < 1 / 2 then f else if 1 / 2 < d then f + 1 else if even f then f else f + 1)"

text \<open>The integer part of the binary logarithm of a positive number.\<close>

fun floor_log2 :: "nat \<Rightarrow> nat" where
  "floor_log2 n = (if n < 2 then 0 else Suc (floor_log2 (n div 2)))"

declare floor_log2.simps [simp del]

definition pow2 :: "int \<Rightarrow> rat" where
  "pow2 e = (if 0 \<le> e then 2 ^ nat e else 1 / 2 ^ nat (- e))"

text \<open>The exponent \<open>e\<close> of a positive rational \<open>a\<close>: \<open>2 ^ e \<le> a < 2 ^ (e + 1)\<close>.\<close>

definition exponent :: "rat \<Rightarrow> int" where
  "exponent a =
     (if 1 \<le> a then int (floor_log2 (nat \<lfloor>a\<rfloor>))
      else - 1 - int (floor_log2 (nat \<lceil>1 / a\<rceil> - 1)))"

text \<open>
  The distance of neighbouring floats at exponent \<open>e\<close>: 52 fraction bits, and the
  subnormal numbers share the least exponent \<open>-1022\<close>.
\<close>

definition quantum :: "int \<Rightarrow> rat" where
  "quantum e = pow2 (max e (- 1022) - 52)"

text \<open>A positive rational rounded to the nearest multiple of its quantum, ties to even.\<close>

definition round_mag :: "rat \<Rightarrow> rat" where
  "round_mag a = of_int (rint (a / quantum (exponent a))) * quantum (exponent a)"

text \<open>
  The float nearest to a rational (round to nearest, ties to even): a magnitude that
  rounds to \<open>2 ^ 1024\<close> overflows to the infinity of its sign, one that rounds to 0
  underflows to the zero of its sign.
\<close>

definition round64 :: "rat \<Rightarrow> fl" where
  "round64 r =
     (if r = 0 then Fin 0
      else if pow2 1024 \<le> round_mag \<bar>r\<bar> then signed_inf (r < 0)
      else signed_fin (r < 0) (if r < 0 then - round_mag \<bar>r\<bar> else round_mag \<bar>r\<bar>))"

subsection \<open>Arithmetic\<close>

text \<open>
  The operations of IEEE 754 as numpy applies them to \<^verbatim>\<open>float64\<close> scalars and columns:
  the exact result, rounded; division by zero gives an infinity or NaN (with a warning), it
  does not raise.
\<close>

fun fl_neg :: "fl \<Rightarrow> fl" where
  "fl_neg NaN = NaN"
| "fl_neg PInf = NInf"
| "fl_neg NInf = PInf"
| "fl_neg NZero = Fin 0"
| "fl_neg (Fin r) = (if r = 0 then NZero else Fin (- r))"

text \<open>
  Addition: an infinity absorbs anything but the opposite infinity; the sum of two
  negative zeros is the negative zero, every other exact sum 0 is the positive zero.
\<close>

definition fl_add :: "fl \<Rightarrow> fl \<Rightarrow> fl" where
  "fl_add a b =
     (if isnan a \<or> isnan b then NaN
      else if fl_is_inf a then (if fl_is_inf b \<and> a \<noteq> b then NaN else a)
      else if fl_is_inf b then b
      else if a = NZero \<and> b = NZero then NZero
      else round64 (fl_val a + fl_val b))"

definition fl_sub :: "fl \<Rightarrow> fl \<Rightarrow> fl" where
  "fl_sub a b = fl_add a (fl_neg b)"

definition fl_mul :: "fl \<Rightarrow> fl \<Rightarrow> fl" where
  "fl_mul a b =
     (let neg = (fl_negative a \<noteq> fl_negative b) in
      if isnan a \<or> isnan b then NaN
      else if fl_is_inf a \<or> fl_is_inf b then
        (if fl_is_zero a \<or> fl_is_zero b then NaN else signed_inf neg)
      else if fl_is_zero a \<or> fl_is_zero b then signed_zero neg
      else round64 (fl_val a * fl_val b))"

definition fl_div :: "fl \<Rightarrow> fl \<Rightarrow> fl" where
  "fl_div a b =
     (let neg = (fl_negative a \<noteq> fl_negative b) in
      if isnan a \<or> isnan b then NaN
      else if fl_is_inf a then (if fl_is_inf b then NaN else signed_inf neg)
      else if fl_is_inf b then signed_zero neg
      else if fl_is_zero b then (if fl_is_zero a then NaN else signed_inf neg)
      else if fl_is_zero a then signed_zero neg
      else round64 (fl_val a / fl_val b))"

text \<open>\<^verbatim>\<open>np.rint\<close>: the nearest integer, ties to even; it is a float as it stands.\<close>

fun fl_rint :: "fl \<Rightarrow> fl" where
  "fl_rint (Fin r) = signed_fin (r < 0) (of_int (rint r))"
| "fl_rint x = x"

text \<open>
  \<^verbatim>\<open>.round(2)\<close> on a float column, as numpy computes it: the product with 100, rounded to
  an integer and divided by 100, each step a float operation.
\<close>

definition fl_round2 :: "fl \<Rightarrow> fl" where
  "fl_round2 x = fl_div (fl_rint (fl_mul x (Fin 100))) (Fin 100)"

text \<open>The conversion of an integer to a float.\<close>

definition int_to_float :: "int \<Rightarrow> fl" where
  "int_to_float i = round64 (of_int i)"

section \<open>JSON bodies and HTTP outcomes\<close>

text \<open>
  A decoded JSON value as \<^verbatim>\<open>r.json()\<close> returns it. A dict is the list of its items in
  insertion order, with distinct keys; a number is a float (Python's int/float distinction
  plays no part in the functions below).
\<close>

datatype json =
  JNull | JBool bool | JNum fl | JStr string | JArr "json list" | JObj "(string \<times> json) list"

text \<open>
  What \<^verbatim>\<open>requests.get(url, params=params, timeout=20)\<close> does: it raises (\<open>Timeout\<close>,
  \<open>ConnectionError\<close>), or it returns a response with a status code and a body. A body
  that is not JSON is \<open>None\<close>; the body type \<open>'a\<close> is \<open>json\<close>, or the shape a provider
  documents for an endpoint. No function below reads the status code, and none calls
  \<^verbatim>\<open>raise_for_status\<close>.
\<close>

datatype 'a http_outcome = Raises pyerr | Response nat "'a option"

text \<open>\<^verbatim>\<open>r = requests.get(...)\<close> followed by \<^verbatim>\<open>r.json()\<close>.\<close>

fun response_json :: "'a http_outcome \<Rightarrow> pyerr + 'a" where
  "response_json (Raises e) = Inl e"
| "response_json (Response status None) = Inl JSONDecodeError"
| "response_json (Response status (Some body)) = Inr body"

text \<open>The values of a \<^verbatim>\<open>params\<close> dict.\<close>

datatype pval = PStr string | PInt int

type_synonym params = "(string \<times> pval) list"

text \<open>\<^verbatim>\<open>d.get(k, dflt)\<close>: only a dict has the method.\<close>

definition dict_get :: "json \<Rightarrow> string \<Rightarrow> json \<Rightarrow> pyerr + json" where
  "dict_get d k dflt =
     (case d of
        JObj kvs \<Rightarrow> Inr (case map_of kvs k of Some v \<Rightarrow> v | None \<Rightarrow> dflt)
      | _ \<Rightarrow> Inl AttributeError)"

text \<open>\<^verbatim>\<open>d.items()\<close>.\<close>

definition dict_items :: "json \<Rightarrow> pyerr + (string \<times> json) list" where
  "dict_items d = (case d of JObj kvs \<Rightarrow> Inr kvs | _ \<Rightarrow> Inl AttributeError)"

text \<open>
  \<^verbatim>\<open>float(v)\<close>. The parser of float literals is the parameter \<open>str_float\<close> (\<open>None\<close>: the
  string is no float literal, \<^verbatim>\<open>ValueError\<close>); that \<^verbatim>\<open>float("nan")\<close> is NaN is
  written out, since the code relies on it.
\<close>

definition py_float :: "(string \<Rightarrow> fl option) \<Rightarrow> json \<Rightarrow> pyerr + fl" where
  "py_float str_float v =
     (case v of
        JStr s \<Rightarrow>
          (if s = ''nan'' then Inr NaN
           else case str_float s of Some x \<Rightarrow> Inr x | None \<Rightarrow> Inl ValueError)
      | JNum x \<Rightarrow> Inr x
      | JBool b \<Rightarrow> Inr (Fin (if b then 1 else 0))
      | _ \<Rightarrow> Inl TypeError)"

text \<open>A \<^verbatim>\<open>for\<close> loop that appends one row per item and stops at the first exception.\<close>

fun mapE :: "('a \<Rightarrow> pyerr + 'b) \<Rightarrow> 'a list \<Rightarrow> pyerr + 'b list" where
  "mapE f [] = Inr []"
| "mapE f (x # xs) =
     (case f x of
        Inl e \<Rightarrow> Inl e
      | Inr y \<Rightarrow> (case mapE f xs of Inl e \<Rightarrow> Inl e | Inr ys \<Rightarrow> Inr (y # ys)))"

section \<open>Strings\<close>

text \<open>\<^verbatim>\<open>s.endswith(suf)\<close>.\<close>

definition endswith :: "string \<Rightarrow> string \<Rightarrow> bool" where
  "endswith s suf = (length suf \<le> length s \<and> drop (length s - length suf) s = suf)"

text \<open>\<^verbatim>\<open>s.split(sep)\<close> for a separator of one character: it splits at every occurrence.\<close>

fun split_str :: "char \<Rightarrow> string \<Rightarrow> string list" where
  "split_str sep [] = [Nil]"
| "split_str sep (c # cs) =
     (if c = sep then [] # split_str sep cs
      else (case split_str sep cs of
              [] \<Rightarrow> [c # Nil]
            | w # ws \<Rightarrow> (c # w) # ws))"

text \<open>\<^verbatim>\<open>sep.join(xs)\<close>.\<close>

fun join_str :: "string \<Rightarrow> string list \<Rightarrow> string" where
  "join_str sep [] = []"
| "join_str sep [x] = x"
| "join_str sep (x # y # ys) = x @ sep @ join_str sep (y # ys)"

section \<open>Crypto\_Stocks.py: the daily series\<close>

text \<open>
  One row of the canonical frame with the columns \<^verbatim>\<open>Date, Open, High, Low, Close,
  Volume\<close>. The type \<open>'d\<close> of the dates is that of a pandas \<^verbatim>\<open>datetime64\<close> column; its
  order is the one \<^verbatim>\<open>sort_values\<close> uses, in which the missing date \<^verbatim>\<open>NaT\<close> comes last.
  A frame is the list of its rows, in row order.
\<close>

record 'd bar =
  Date :: 'd
  Open :: fl
  High :: fl
  Low :: fl
  Close :: fl
  Volume :: fl

text \<open>\<^verbatim>\<open>float(vals.get(key, "nan"))\<close>.\<close>

definition get_float :: "(string \<Rightarrow> fl option) \<Rightarrow> json \<Rightarrow> string \<Rightarrow> pyerr + fl" where
  "get_float str_float vals key = bindE (dict_get vals key (JStr ''nan'')) (py_float str_float)"

text \<open>
  \<^verbatim>\<open>pd.to_datetime(date_str)\<close> is the parameter \<open>to_datetime\<close>; \<open>None\<close> stands for
  its exceptions, all of them \<^verbatim>\<open>ValueError\<close>s.
\<close>

definition parse_date :: "(string \<Rightarrow> 'd option) \<Rightarrow> string \<Rightarrow> pyerr + 'd" where
  "parse_date to_datetime date_str =
     (case to_datetime date_str of None \<Rightarrow> Inl ValueError | Some d \<Rightarrow> Inr d)"

text \<open>
  The body of the loop on the \<^verbatim>\<open>DIGITAL_CURRENCY_DAILY\<close> route: close, high, low and
  volume are read in this order, then the date is parsed.
\<close>

fun crypto_row ::
  "(string \<Rightarrow> 'd option) \<Rightarrow> (string \<Rightarrow> fl option) \<Rightarrow> string \<times> json \<Rightarrow> pyerr + 'd bar"
where
  "crypto_row to_datetime str_float (date_str, vals) =
     bindE (get_float str_float vals ''4a. close (USD)'') (\<lambda>close.
     bindE (get_float str_float vals ''2a. high (USD)'') (\<lambda>high.
     bindE (get_float str_float vals ''3a. low (USD)'') (\<lambda>low.
     bindE (get_float str_float vals ''5. volume'') (\<lambda>volume.
     bindE (parse_date to_datetime date_str) (\<lambda>d.
       Inr \<lparr>Date = d, Open = NaN, High = high, Low = low, Close = close,
            Volume = volume\<rparr>)))))"

text \<open>The body of the loop on the \<^verbatim>\<open>TIME_SERIES_DAILY\<close> route.\<close>

fun equity_row ::
  "(string \<Rightarrow> 'd option) \<Rightarrow> (string \<Rightarrow> fl option) \<Rightarrow> string \<times> json \<Rightarrow> pyerr + 'd bar"
where
  "equity_row to_datetime str_float (date_str, vals) =
     bindE (parse_date to_datetime date_str) (\<lambda>d.
     bindE (get_float str_float vals ''1. open'') (\<lambda>opn.
     bindE (get_float str_float vals ''2. high'') (\<lambda>high.
     bindE (get_float str_float vals ''3. low'') (\<lambda>low.
     bindE (get_float str_float vals ''4. close'') (\<lambda>close.
     bindE (get_float str_float vals ''5. volume'') (\<lambda>volume.
       Inr \<lparr>Date = d, Open = opn, High = high, Low = low, Close = close,
            Volume = volume\<rparr>))))))"

text \<open>
  \<^verbatim>\<open>pd.DataFrame(rows).sort_values("Date")\<close>. A frame built from no rows has no column
  \<^verbatim>\<open>Date\<close>, and sorting by it raises \<^verbatim>\<open>KeyError\<close>. pandas sorts with quicksort, which
  fixes no order among rows of equal date; \<open>sort_key\<close> keeps their order. Dates that
  pandas cannot compare with each other (with and without a time zone) are outside this
  model: the dates of a frame are of one linearly ordered type.
\<close>

definition sort_values_Date :: "('d::linorder) bar list \<Rightarrow> pyerr + 'd bar list" where
  "sort_values_Date rows = (if rows = [] then Inl KeyError else Inr (sort_key Date rows))"

text \<open>\<^verbatim>\<open>crypto_symbol, market = symbol.split("-")\<close>: exactly two parts, or \<^verbatim>\<open>ValueError\<close>.\<close>

definition unpack2 :: "'a list \<Rightarrow> pyerr + 'a \<times> 'a" where
  "unpack2 xs = (case xs of [a, b] \<Rightarrow> Inr (a, b) | _ \<Rightarrow> Inl ValueError)"

text \<open>
  What the \<^verbatim>\<open>DIGITAL_CURRENCY_DAILY\<close> branch does with the outcome of its request:
  \<^verbatim>\<open>r.json()\<close>, the time series (an empty dict when the key is absent), one row per
  item, the sort.
\<close>

definition crypto_series ::
  "(string \<Rightarrow> ('d::linorder) option) \<Rightarrow> (string \<Rightarrow> fl option) \<Rightarrow> json http_outcome
     \<Rightarrow> pyerr + 'd bar list"
where
  "crypto_series to_datetime str_float r =
     bindE (response_json r) (\<lambda>data.
     bindE (dict_get data ''Time Series (Digital Currency Daily)'' (JObj [])) (\<lambda>ts.
     bindE (dict_items ts) (\<lambda>items.
     bindE (mapE (crypto_row to_datetime str_float) items) sort_values_Date)))"

text \<open>The same for the \<^verbatim>\<open>TIME_SERIES_DAILY\<close> branch.\<close>

definition equity_series ::
  "(string \<Rightarrow> ('d::linorder) option) \<Rightarrow> (string \<Rightarrow> fl option) \<Rightarrow> json http_outcome
     \<Rightarrow> pyerr + 'd bar list"
where
  "equity_series to_datetime str_float r =
     bindE (response_json r) (\<lambda>data.
     bindE (dict_get data ''Time Series (Daily)'' (JObj [])) (\<lambda>ts.
     bindE (dict_items ts) (\<lambda>items.
     bindE (mapE (equity_row to_datetime str_float) items) sort_values_Date)))"

text \<open>
  The \<^verbatim>\<open>try\<close> block of \<^verbatim>\<open>av_fetch_daily_series\<close>: the test of the suffix, the
  split, the \<^verbatim>\<open>params\<close> of the branch and its request to the constant \<^verbatim>\<open>BASE_URL\<close>
  (the parameter \<open>requests_get\<close>).
\<close>

definition av_fetch_daily_series_try ::
  "(params \<Rightarrow> json http_outcome) \<Rightarrow> (string \<Rightarrow> ('d::linorder) option) \<Rightarrow> (string \<Rightarrow> fl option)
     \<Rightarrow> string \<Rightarrow> string \<Rightarrow> pyerr + 'd bar list"
where
  "av_fetch_daily_series_try requests_get to_datetime str_float symbol api_key =
     (if endswith symbol ''-USD'' then
        bindE (unpack2 (split_str CHR ''-'' symbol)) (\<lambda>(crypto_symbol, market).
          crypto_series to_datetime str_float
            (requests_get
               [(''function'', PStr ''DIGITAL_CURRENCY_DAILY''),
                (''symbol'', PStr crypto_symbol),
                (''market'', PStr market),
                (''apikey'', PStr api_key)]))
      else
        equity_series to_datetime str_float
          (requests_get
             [(''function'', PStr ''TIME_SERIES_DAILY''),
              (''symbol'', PStr symbol),
              (''outputsize'', PStr ''compact''),
              (''apikey'', PStr api_key)]))"

text \<open>
  \<^verbatim>\<open>av_fetch_daily_series\<close>: \<^verbatim>\<open>except Exception\<close> turns every exception of the block
  into the empty frame with the six columns.
\<close>

definition av_fetch_daily_series ::
  "(params \<Rightarrow> json http_outcome) \<Rightarrow> (string \<Rightarrow> ('d::linorder) option) \<Rightarrow> (string \<Rightarrow> fl option)
     \<Rightarrow> string \<Rightarrow> string \<Rightarrow> 'd bar list"
where
  "av_fetch_daily_series requests_get to_datetime str_float symbol api_key =
     (case av_fetch_daily_series_try requests_get to_datetime str_float symbol api_key of
        Inl e \<Rightarrow> []
      | Inr df \<Rightarrow> df)"

text \<open>The result of \<^verbatim>\<open>compute_snapshot_from_series\<close>.\<close>

record snapshot =
  Current_Price :: fl
  Pct_Change :: fl

text \<open>
  \<^verbatim>\<open>compute_snapshot_from_series\<close>. \<^verbatim>\<open>df.iloc[-1]\<close> and \<^verbatim>\<open>df.iloc[-2]\<close> are read only
  on a frame with at least one, respectively two, rows. The closes read from the frame are
  \<^verbatim>\<open>numpy.float64\<close>, so the division follows \<open>fl_div\<close>.
\<close>

definition compute_snapshot_from_series :: "'d bar list \<Rightarrow> snapshot" where
  "compute_snapshot_from_series df =
     (if df = [] then \<lparr>Current_Price = NaN, Pct_Change = NaN\<rparr>
      else
        let lst = Close (df ! (length df - 1));
            prev = (if length df > 1 then Close (df ! (length df - 2)) else NaN);
            pct = (if \<not> isnan prev
                   then fl_mul (fl_div (fl_sub lst prev) prev) (Fin 100) else NaN)
        in \<lparr>Current_Price = lst, Pct_Change = (if \<not> isnan pct then pct else NaN)\<rparr>)"

section \<open>Crypto\_Prices.py\<close>

definition GECKO_BASE :: string where
  "GECKO_BASE = ''https://api.coingecko.com/api/v3''"

subsection \<open>get\_markets\_for\_cards\<close>

text \<open>
  The body of \<^verbatim>\<open>/coins/markets\<close> is a list of objects, one per coin; bodies of another
  shape are outside this model. \<^verbatim>\<open>pd.DataFrame\<close> of such a list has one row per object
  and one column per key that occurs in some object; a cell of a key its object lacks is
  missing (\<open>None\<close> here).
\<close>

type_synonym records = "(string \<times> json) list list"

definition frame_columns :: "records \<Rightarrow> string list" where
  "frame_columns recs = remdups (concat (map (map fst) recs))"

text \<open>One row of the returned frame; the fields are its six columns.\<close>

record card =
  card_id :: "json option"
  card_symbol :: "json option"
  card_name :: "json option"
  card_current_price :: "json option"
  card_price_change_percentage_24h :: "json option"
  card_sparkline :: json

text \<open>\<^verbatim>\<open>lambda x: x.get("price", []) if isinstance(x, dict) else []\<close> on a cell.\<close>

definition sparkline_price :: "json option \<Rightarrow> json" where
  "sparkline_price x =
     (case x of
        Some (JObj d) \<Rightarrow> (case map_of d ''price'' of Some p \<Rightarrow> p | None \<Rightarrow> JArr [])
      | _ \<Rightarrow> JArr [])"

definition card_columns :: "string list" where
  "card_columns =
     [''id'', ''symbol'', ''name'', ''current_price'', ''price_change_percentage_24h'',
      ''sparkline'']"

text \<open>
  \<^verbatim>\<open>get_markets_for_cards\<close>. There is no \<^verbatim>\<open>try\<close>: an exception of the request or of
  \<^verbatim>\<open>r.json()\<close> leaves the function. The last line selects six columns and raises
  \<^verbatim>\<open>KeyError\<close> when the frame lacks one of them.
\<close>

definition get_markets_for_cards ::
  "(string \<Rightarrow> params \<Rightarrow> records http_outcome) \<Rightarrow> string list \<Rightarrow> pyerr + card list"
where
  "get_markets_for_cards requests_get ids =
     bindE (response_json (requests_get (GECKO_BASE @ ''/coins/markets'')
              [(''vs_currency'', PStr ''usd''),
               (''ids'', PStr (join_str '','' ids)),
               (''sparkline'', PStr ''true''),
               (''price_change_percentage'', PStr ''24h'')])) (\<lambda>recs.
       let cols = frame_columns recs;
           sparkline =
             (if ''sparkline_in_7d'' \<in> set cols
              then map (\<lambda>r. sparkline_price (map_of r ''sparkline_in_7d'')) recs
              else map (\<lambda>r. JArr []) recs)
       in if list_all (\<lambda>c. c \<in> set (cols @ [''sparkline''])) card_columns
          then Inr (map (\<lambda>(r, s).
                 \<lparr>card_id = map_of r ''id'', card_symbol = map_of r ''symbol'',
                  card_name = map_of r ''name'',
                  card_current_price = map_of r ''current_price'',
                  card_price_change_percentage_24h = map_of r ''price_change_percentage_24h'',
                  card_sparkline = s\<rparr>) (zip recs sparkline))
          else Inl KeyError)"

subsection \<open>get\_market\_chart\<close>

text \<open>
  The body of \<^verbatim>\<open>/coins/{id}/market_chart\<close>: an object whose keys \<^verbatim>\<open>prices\<close> and
  \<^verbatim>\<open>market_caps\<close>, when present, hold lists of pairs \<^verbatim>\<open>[ts, value]\<close> with an integer
  timestamp in milliseconds and a number or null (NaN in the frame). Bodies of another
  shape are outside this model.
\<close>

record chart_payload =
  prices :: "(int \<times> fl) list option"
  market_caps :: "(int \<times> fl) list option"

text \<open>A row of the returned frame: the columns \<^verbatim>\<open>ts, price, market_cap, Date\<close>.\<close>

record 'd chart_row =
  ts :: int
  price :: fl
  market_cap :: fl
  chart_Date :: 'd

text \<open>
  \<^verbatim>\<open>pd.merge(df_p, df_m, on="ts", how="left")\<close>: the rows of the left frame in their
  order, each once per right row of the same key, or once with NaN when there is none.
\<close>

definition merge_left :: "(int \<times> fl) list \<Rightarrow> (int \<times> fl) list \<Rightarrow> (int \<times> fl \<times> fl) list" where
  "merge_left df_p df_m =
     concat (map (\<lambda>(t, p).
       (case filter (\<lambda>(t', c). t' = t) df_m of
          [] \<Rightarrow> [(t, p, NaN)]
        | ms \<Rightarrow> map (\<lambda>(t', c). (t, p, c)) ms)) df_p)"

text \<open>
  \<^verbatim>\<open>get_market_chart\<close>, without a \<^verbatim>\<open>try\<close> and without a sort. The conversion
  \<^verbatim>\<open>pd.to_datetime(df["ts"], unit="ms")\<close> is the parameter \<open>to_datetime_ms\<close>, \<open>None\<close>
  where it raises (a timestamp out of bounds).
\<close>

definition get_market_chart ::
  "(string \<Rightarrow> params \<Rightarrow> chart_payload http_outcome) \<Rightarrow> (int \<Rightarrow> 'd option) \<Rightarrow> string \<Rightarrow> int
     \<Rightarrow> pyerr + 'd chart_row list"
where
  "get_market_chart requests_get to_datetime_ms coin_id days =
     bindE (response_json (requests_get (GECKO_BASE @ ''/coins/'' @ coin_id @ ''/market_chart'')
              [(''vs_currency'', PStr ''usd''), (''days'', PInt days)])) (\<lambda>js.
       let df_p = (case prices js of None \<Rightarrow> [] | Some ps \<Rightarrow> ps);
           df_m = (case market_caps js of None \<Rightarrow> [] | Some ms \<Rightarrow> ms)
       in mapE (\<lambda>(t, p, c).
            (case to_datetime_ms t of
               None \<Rightarrow> Inl ValueError
             | Some d \<Rightarrow> Inr \<lparr>ts = t, price = p, market_cap = c, chart_Date = d\<rparr>))
            (merge_left df_p df_m))"

subsection \<open>get\_fear\_greed\<close>

text \<open>The truth value of a JSON value, as \<^verbatim>\<open>if data:\<close> takes it.\<close>

fun json_truthy :: "json \<Rightarrow> bool" where
  "json_truthy JNull = False"
| "json_truthy (JBool b) = b"
| "json_truthy (JNum x) = (\<not> fl_is_zero x)"
| "json_truthy (JStr s) = (s \<noteq> [])"
| "json_truthy (JArr xs) = (xs \<noteq> [])"
| "json_truthy (JObj kvs) = (kvs \<noteq> [])"

text \<open>
  \<^verbatim>\<open>data[0]\<close>: the first element of a list, the first character of a string
  (\<^verbatim>\<open>IndexError\<close> when they are empty), \<^verbatim>\<open>KeyError\<close> on a dict (no JSON key is the
  integer 0) and \<^verbatim>\<open>TypeError\<close> on a number, a boolean or null.
\<close>

fun json_first :: "json \<Rightarrow> pyerr + json" where
  "json_first (JArr (x # xs)) = Inr x"
| "json_first (JArr []) = Inl IndexError"
| "json_first (JStr (c # cs)) = Inr (JStr [c])"
| "json_first (JStr []) = Inl IndexError"
| "json_first (JObj kvs) = Inl KeyError"
| "json_first v = Inl TypeError"

record fear_greed =
  fg_value :: fl
  fg_classification :: json

text \<open>
  The \<^verbatim>\<open>try\<close> block of \<^verbatim>\<open>get_fear_greed\<close>; \<open>None\<close> when it ends without a
  \<^verbatim>\<open>return\<close>, the data being falsy.
\<close>

definition get_fear_greed_try ::
  "(string \<Rightarrow> params \<Rightarrow> json http_outcome) \<Rightarrow> (string \<Rightarrow> fl option)
     \<Rightarrow> pyerr + fear_greed option"
where
  "get_fear_greed_try requests_get str_float =
     bindE (response_json (requests_get ''https://api.alternative.me/fng/'' [(''limit'', PInt 1)]))
       (\<lambda>body.
     bindE (dict_get body ''data'' (JArr [])) (\<lambda>data.
       if json_truthy data then
         bindE (json_first data) (\<lambda>d0.
         bindE (get_float str_float d0 ''value'') (\<lambda>val.
         bindE (dict_get d0 ''value_classification'' (JStr [])) (\<lambda>cls.
           Inr (Some \<lparr>fg_value = val, fg_classification = cls\<rparr>))))
       else Inr None))"

text \<open>
  \<^verbatim>\<open>get_fear_greed\<close>: after an exception (\<^verbatim>\<open>pass\<close>) and after a falsy data the
  function returns the NaN value with the empty classification.
\<close>

definition get_fear_greed ::
  "(string \<Rightarrow> params \<Rightarrow> json http_outcome) \<Rightarrow> (string \<Rightarrow> fl option) \<Rightarrow> fear_greed"
where
  "get_fear_greed requests_get str_float =
     (case get_fear_greed_try requests_get str_float of
        Inr (Some res) \<Rightarrow> res
      | _ \<Rightarrow> \<lparr>fg_value = NaN, fg_classification = JStr []\<rparr>)"

subsection \<open>get\_market\_tickers and the markets table\<close>

text \<open>
  A volume as JSON gives it: an integer, here one of the int64 range as a 64-bit word read
  in two's complement, or a float.
\<close>

datatype volume = VInt "64 word" | VFloat fl

text \<open>
  One element of the list \<^verbatim>\<open>tickers\<close> of the body of \<^verbatim>\<open>/coins/{id}/tickers\<close>: an
  object, of which the function reads seven keys (\<open>None\<close>: the key is absent). The
  volume is a number or null (\<open>None\<close> as well); a volume of another JSON type, and an
  integer beyond the int64 range, are outside this model.
\<close>

record ticker =
  t_market :: "json option"
  t_base :: "json option"
  t_target :: "json option"
  t_last :: "json option"
  t_volume :: "volume option"
  t_trust_score :: "json option"
  t_trade_url :: "json option"

record tickers_payload =
  tickers :: "ticker list option"

text \<open>
  The row built for a ticker. \<open>Pair\<close> holds the two values the f-string formats. A
  \<open>None\<close> cell is Python's \<^verbatim>\<open>None\<close>.
\<close>

record ticker_row =
  Exchange :: "json option"
  Pair :: "json option \<times> json option"
  Price :: "json option"
  Volume_24h :: "volume option"
  Liquidity :: "json option"
  Trade_URL :: "json option"

text \<open>The row with the column \<^verbatim>\<open>Volume %\<close>.\<close>

record ticker_row_pct = ticker_row +
  Volume_pct :: fl

text \<open>
  The loop body: \<^verbatim>\<open>t.get("market", {})\<close>, then \<^verbatim>\<open>market.get("name")\<close>, which only a
  dict has.
\<close>

definition make_ticker_row :: "ticker \<Rightarrow> pyerr + ticker_row" where
  "make_ticker_row t =
     (case (case t_market t of None \<Rightarrow> JObj [] | Some m \<Rightarrow> m) of
        JObj kvs \<Rightarrow>
          Inr \<lparr>Exchange = map_of kvs ''name'', Pair = (t_base t, t_target t),
               Price = t_last t, Volume_24h = t_volume t, Liquidity = t_trust_score t,
               Trade_URL = t_trade_url t\<rparr>
      | _ \<Rightarrow> Inl AttributeError)"

text \<open>
  The column \<^verbatim>\<open>Volume_24h\<close> of \<^verbatim>\<open>pd.DataFrame(rows)\<close> takes its type from its cells:
  \<^verbatim>\<open>int64\<close> when every cell is an integer, \<^verbatim>\<open>object\<close> when every cell is
  \<^verbatim>\<open>None\<close>, and \<^verbatim>\<open>float64\<close> otherwise, with NaN for \<^verbatim>\<open>None\<close> and the integers
  converted.
\<close>

datatype column = Int64 "64 word list" | Float64 "fl list" | AllNone nat

fun the_int :: "volume option \<Rightarrow> 64 word" where
  "the_int (Some (VInt w)) = w"
| "the_int _ = 0"

fun cell_float :: "volume option \<Rightarrow> fl" where
  "cell_float None = NaN"
| "cell_float (Some (VInt w)) = int_to_float (sint w)"
| "cell_float (Some (VFloat x)) = x"

definition is_int_cell :: "volume option \<Rightarrow> bool" where
  "is_int_cell c = (case c of Some (VInt w) \<Rightarrow> True | _ \<Rightarrow> False)"

definition volume_column :: "volume option list \<Rightarrow> column" where
  "volume_column cells =
     (if list_all (\<lambda>c. c = None) cells then AllNone (length cells)
      else if list_all is_int_cell cells then Int64 (map the_int cells)
      else Float64 (map cell_float cells))"

text \<open>
  The sum of a float array as numpy computes it (pairwise summation): up to 7 elements
  are added in order; up to 128 elements go to 8 accumulators, taken in turn, which are
  then added in pairs, and the elements behind the last full block of 8 are added in
  order; a longer array is split near its middle, at a multiple of 8.
\<close>

function fold_blocks :: "fl list \<Rightarrow> fl list \<Rightarrow> fl list" where
  "fold_blocks r ys =
     (if length ys < 8 then r else fold_blocks (map2 fl_add r (take 8 ys)) (drop 8 ys))"
  by pat_completeness auto
termination
  by (relation "measure (\<lambda>(r, ys). length ys)") auto

declare fold_blocks.simps [simp del]

definition unrolled_sum :: "fl list \<Rightarrow> fl" where
  "unrolled_sum xs =
     (let n = length xs;
          r = fold_blocks (take 8 xs) (take (n - n mod 8 - 8) (drop 8 xs));
          res = fl_add (fl_add (fl_add (r ! 0) (r ! 1)) (fl_add (r ! 2) (r ! 3)))
                       (fl_add (fl_add (r ! 4) (r ! 5)) (fl_add (r ! 6) (r ! 7)))
      in foldl fl_add res (drop (n - n mod 8) xs))"

definition split_point :: "nat \<Rightarrow> nat" where
  "split_point n = n div 2 - n div 2 mod 8"

function pairwise_sum :: "fl list \<Rightarrow> fl" where
  "pairwise_sum xs =
     (if length xs < 8 then foldl fl_add (Fin 0) xs
      else if length xs \<le> 128 then unrolled_sum xs
      else fl_add (pairwise_sum (take (split_point (length xs)) xs))
                  (pairwise_sum (drop (split_point (length xs)) xs)))"
  by pat_completeness auto
termination
  by (relation "measure length") (auto simp: split_point_def)

declare pairwise_sum.simps [simp del]

text \<open>
  \<^verbatim>\<open>Series.sum()\<close> on a float column: the NaN cells are replaced by 0 and the array is
  summed from the initial value 0. (The sign of a zero sum depends on the version of numpy;
  both zeros are false in the test of the total.)
\<close>

definition float_sum :: "fl list \<Rightarrow> fl" where
  "float_sum xs = fl_add (Fin 0) (pairwise_sum (map (\<lambda>x. if isnan x then Fin 0 else x) xs))"

text \<open>
  The column \<^verbatim>\<open>Volume %\<close>. On an \<^verbatim>\<open>int64\<close> column the sum is an int64, which wraps
  around, and the division converts both integers to floats. On the \<^verbatim>\<open>object\<close> column
  of \<^verbatim>\<open>None\<close>s the sum is 0. A total that is zero is false, and the scalar \<^verbatim>\<open>0.0\<close> is
  assigned to every row; NaN is true.
\<close>

definition volume_percent :: "column \<Rightarrow> fl list" where
  "volume_percent col =
     (case col of
        AllNone n \<Rightarrow> replicate n (Fin 0)
      | Int64 ws \<Rightarrow>
          (let total_vol = sum_list ws in
           if total_vol \<noteq> 0
           then map (\<lambda>w. fl_round2 (fl_mul (fl_div (int_to_float (sint w))
                                               (int_to_float (sint total_vol))) (Fin 100))) ws
           else map (\<lambda>w. Fin 0) ws)
      | Float64 xs \<Rightarrow>
          (let total_vol = float_sum xs in
           if \<not> fl_is_zero total_vol
           then map (\<lambda>x. fl_round2 (fl_mul (fl_div x total_vol) (Fin 100))) xs
           else map (\<lambda>x. Fin 0) xs))"

text \<open>
  \<^verbatim>\<open>get_market_tickers\<close>, without a \<^verbatim>\<open>try\<close>. A frame with a row has the column
  \<^verbatim>\<open>Volume_24h\<close>, so the \<^verbatim>\<open>if\<close> is taken exactly when there is a row.
\<close>

definition get_market_tickers ::
  "(string \<Rightarrow> tickers_payload http_outcome) \<Rightarrow> string \<Rightarrow> pyerr + ticker_row_pct list"
where
  "get_market_tickers requests_get coin_id =
     bindE (response_json (requests_get (GECKO_BASE @ ''/coins/'' @ coin_id @ ''/tickers'')))
       (\<lambda>js.
     bindE (mapE make_ticker_row (case tickers js of None \<Rightarrow> [] | Some l \<Rightarrow> l)) (\<lambda>rows.
       Inr (map (\<lambda>(r, p). ticker_row.extend r \<lparr>Volume_pct = p\<rparr>)
              (zip rows (volume_percent (volume_column (map Volume_24h rows)))))))"

text \<open>A Python number: \<^verbatim>\<open>map_liq\<close> returns an int or the float NaN.\<close>

datatype pynum = PyInt int | PyFloat fl

text \<open>\<^verbatim>\<open>map_liq\<close>; a comparison with a string is false for every value of another type.\<close>

definition map_liq :: "json option \<Rightarrow> pynum" where
  "map_liq x =
     (if x = Some (JStr ''green'') then PyInt 3
      else if x = Some (JStr ''yellow'') then PyInt 2
      else if x = Some (JStr ''red'') then PyInt 1
      else PyFloat NaN)"

text \<open>The column \<^verbatim>\<open>mt["Liquidity"].apply(map_liq)\<close> of the markets table.\<close>

definition liquidity_score :: "ticker_row_pct list \<Rightarrow> pynum list" where
  "liquidity_score mt = map (\<lambda>r. map_liq (Liquidity r)) mt"

section \<open>streamlit\_app.py: fetch\_history\<close>

text \<open>
  The frame \<^verbatim>\<open>yf.download\<close> returns: its column labels, which are strings or, in a
  \<^verbatim>\<open>MultiIndex\<close>, tuples with a first string and further levels, and its rows, each
  with its index entry (the date) and its cells in column order.
\<close>

datatype col_index = Index "string list" | MultiIndex "(string \<times> string list) list"

record 'd dataframe =
  df_columns :: col_index
  df_rows :: "('d \<times> fl list) list"

text \<open>
  \<^verbatim>\<open>str.title\<close> on ASCII letters: the first letter of every run of letters in upper
  case, the others in lower case. Bytes beyond ASCII are left as they are.
\<close>

definition is_lower :: "char \<Rightarrow> bool" where
  "is_lower c = (97 \<le> (of_char c :: nat) \<and> (of_char c :: nat) \<le> 122)"

definition is_upper :: "char \<Rightarrow> bool" where
  "is_upper c = (65 \<le> (of_char c :: nat) \<and> (of_char c :: nat) \<le> 90)"

definition to_upper :: "char \<Rightarrow> char" where
  "to_upper c = char_of ((of_char c :: nat) - 32)"

definition to_lower :: "char \<Rightarrow> char" where
  "to_lower c = char_of ((of_char c :: nat) + 32)"

fun title_from :: "bool \<Rightarrow> string \<Rightarrow> string" where
  "title_from previous_is_cased [] = []"
| "title_from previous_is_cased (c # cs) =
     (if is_lower c then (if previous_is_cased then c else to_upper c) # title_from True cs
      else if is_upper c then (if previous_is_cased then to_lower c else c) # title_from True cs
      else c # title_from False cs)"

definition str_title :: "string \<Rightarrow> string" where
  "str_title s = title_from False s"

text \<open>The returned frame: its columns, \<^verbatim>\<open>Date\<close> first, and its rows in row order.\<close>

record 'd history =
  hist_columns :: "string list"
  hist_rows :: "('d \<times> fl list) list"

text \<open>
  The \<^verbatim>\<open>try\<close> block of \<^verbatim>\<open>fetch_history\<close>: the download (the parameter
  \<open>yf_download\<close>), the first level of a \<^verbatim>\<open>MultiIndex\<close>, \<^verbatim>\<open>str.title\<close> on the
  labels, \<^verbatim>\<open>reset_index\<close>, which raises \<^verbatim>\<open>ValueError\<close> when a column is already named
  \<^verbatim>\<open>Date\<close>, and a NaN column for each required column that is missing. Nothing sorts
  the rows.
\<close>

definition required_columns :: "string list" where
  "required_columns = [''Open'', ''High'', ''Low'', ''Close'', ''Volume'']"

definition fetch_history_try ::
  "(string \<Rightarrow> 't \<Rightarrow> 't \<Rightarrow> pyerr + 'd dataframe) \<Rightarrow> string \<Rightarrow> 't \<Rightarrow> 't \<Rightarrow> pyerr + 'd history"
where
  "fetch_history_try yf_download ticker start end =
     bindE (yf_download ticker start end) (\<lambda>df.
       let cols = map str_title
                    (case df_columns df of MultiIndex cs \<Rightarrow> map fst cs | Index cs \<Rightarrow> cs);
           missing = filter (\<lambda>c. c \<notin> set cols) required_columns
       in if ''Date'' \<in> set cols then Inl ValueError
          else Inr \<lparr>hist_columns = ''Date'' # cols @ missing,
                    hist_rows = map (\<lambda>(d, cells). (d, cells @ map (\<lambda>c. NaN) missing))
                                  (df_rows df)\<rparr>)"

text \<open>\<^verbatim>\<open>fetch_history\<close>: every exception gives the empty frame with the six columns.\<close>

definition fetch_history ::
  "(string \<Rightarrow> 't \<Rightarrow> 't \<Rightarrow> pyerr + 'd dataframe) \<Rightarrow> string \<Rightarrow> 't \<Rightarrow> 't \<Rightarrow> 'd history"
where
  "fetch_history yf_download ticker start end =
     (case fetch_history_try yf_download ticker start end of
        Inl e \<Rightarrow> \<lparr>hist_columns = ''Date'' # required_columns, hist_rows = []\<rparr>
      | Inr h \<Rightarrow> h)"

section \<open>Concrete inputs\<close>

text \<open>A bar of which only the date and the close matter.\<close>

definition close_bar :: "nat \<Rightarrow> fl \<Rightarrow> nat bar" where
  "close_bar d c = \<lparr>Date = d, Open = NaN, High = NaN, Low = NaN, Close = c, Volume = NaN\<rparr>"

text \<open>
  An Alpha Vantage that answers every request with a crypto payload of two days, the later
  day first, with some fields absent.
\<close>

definition av_two_days :: "params \<Rightarrow> json http_outcome" where
  "av_two_days ps =
     Response 200 (Some (JObj [(''Time Series (Digital Currency Daily)'',
       JObj [(''2024-01-02'',
                JObj [(''4a. close (USD)'', JNum (Fin 110)), (''2a. high (USD)'', JNum (Fin 120))]),
             (''2024-01-01'',
                JObj [(''4a. close (USD)'', JNum (Fin 100)), (''5. volume'', JStr ''nan'')])])]))"

text \<open>Dates as day numbers, for the two dates of the payload.\<close>

definition day_of :: "string \<Rightarrow> nat option" where
  "day_of s =
     (if s = ''2024-01-01'' then Some 1 else if s = ''2024-01-02'' then Some 2 else None)"

text \<open>A float parser that accepts no string (\<^verbatim>\<open>"nan"\<close> never reaches it).\<close>

definition no_float :: "string \<Rightarrow> fl option" where
  "no_float s = None"

text \<open>A market chart whose two price entries arrive the later one first.\<close>

definition chart_out_of_order :: "string \<Rightarrow> params \<Rightarrow> chart_payload http_outcome" where
  "chart_out_of_order url ps =
     Response 200
       (Some \<lparr>prices = Some [(2, Fin 5), (1, Fin 6)], market_caps = Some [(1, Fin 9)]\<rparr>)"

text \<open>A download with a two-level header whose rows arrive the later one first.\<close>

definition download_out_of_order :: "string \<Rightarrow> unit \<Rightarrow> unit \<Rightarrow> pyerr + nat dataframe" where
  "download_out_of_order ticker start end =
     Inr \<lparr>df_columns = MultiIndex [(''Close'', [''LE=F'']), (''Open'', [''LE=F''])],
          df_rows = [(2, [Fin 1, Fin 2]), (1, [Fin 3, Fin 4])]\<rparr>"

text \<open>
  A market chart of seven price entries and five market caps, on the timestamps of five
  of the prices.
\<close>

definition chart_seven_five :: "string \<Rightarrow> params \<Rightarrow> chart_payload http_outcome" where
  "chart_seven_five url ps =
     Response 200
       (Some \<lparr>prices = Some [(1, Fin 10), (2, Fin 20), (3, Fin 30), (4, Fin 40), (5, Fin 50),
                               (6, Fin 60), (7, Fin 70)],
              market_caps = Some [(1, Fin 100), (2, Fin 200), (4, Fin 400), (5, Fin 500),
                                  (7, Fin 700)]\<rparr>)"

text \<open>A ticker of an exchange with a volume and a trust score.\<close>

definition a_ticker :: "volume option \<Rightarrow> json option \<Rightarrow> ticker" where
  "a_ticker v trust =
     \<lparr>t_market = Some (JObj [(''name'', JStr ''X'')]), t_base = Some (JStr ''BTC''),
      t_target = Some (JStr ''USD''), t_last = Some (JNum (Fin 5)), t_volume = v,
      t_trust_score = trust, t_trade_url = None\<rparr>"

text \<open>A body of \<^verbatim>\<open>/coins/{id}/tickers\<close> with the given tickers, for every URL.\<close>

definition tickers_body :: "ticker list \<Rightarrow> string \<Rightarrow> tickers_payload http_outcome" where
  "tickers_body l url = Response 200 (Some \<lparr>tickers = Some l\<rparr>)"

text \<open>Tickers with the float volumes 1 and 2, and tickers with three integer volumes 0.\<close>

definition tickers_one_two :: "string \<Rightarrow> tickers_payload http_outcome" where
  "tickers_one_two =
     tickers_body [a_ticker (Some (VFloat (Fin 1))) (Some (JStr ''green'')),
                   a_ticker (Some (VFloat (Fin 2))) None]"

definition tickers_no_volume :: "string \<Rightarrow> tickers_payload http_outcome" where
  "tickers_no_volume =
     tickers_body [a_ticker (Some (VInt 0)) (Some (JStr ''yellow'')),
                   a_ticker (Some (VInt 0)) (Some (JStr ''red'')),
                   a_ticker (Some (VInt 0)) (Some (JNum (Fin 3)))]"








section \<open>Shared lemmas\<close>

lemma bindE_simps [simp]:
  "bindE (Inl e) f = Inl e"
  "bindE (Inr x) f = f x"
  by (simp_all add: bindE_def)

subsection \<open>Evaluating float operations\<close>

lemma floor_rat_numeral: "\<lfloor>numeral a / numeral b :: rat\<rfloor> = numeral a div numeral b"
  using floor_divide_of_int_eq [of "numeral a" "numeral b", where ?'a = rat] by simp

lemma ceiling_rat_numeral: "\<lceil>numeral a / numeral b :: rat\<rceil> = - (- numeral a div numeral b)"
  using ceiling_divide_eq_div [of "numeral a" "numeral b", where ?'a = rat] by simp

lemmas round64_eval = round64_def round_mag_def quantum_def exponent_def pow2_def rint_def
  Let_def floor_log2.simps floor_rat_numeral ceiling_rat_numeral signed_fin_def signed_inf_def
  signed_zero_def

lemmas fl_eval = fl_add_def fl_sub_def fl_mul_def fl_div_def fl_round2_def int_to_float_def
  isnan_def round64_eval

lemma fl_nan_absorbs:
  "fl_sub a NaN = NaN" "fl_div a NaN = NaN" "fl_mul NaN b = NaN"
  by (simp_all add: fl_sub_def fl_add_def fl_div_def fl_mul_def isnan_def)

subsection \<open>Conditionals\<close>



subsection \<open>Exceptions and loops\<close>

lemma bindE_InrE:
  assumes "bindE m f = Inr y"
  obtains x where "m = Inr x" and "f x = Inr y"
  using assms by (cases m) simp_all


lemma response_json_Inr: "response_json r = Inr body \<Longrightarrow> \<exists>st. r = Response st (Some body)"
  by (cases r rule: response_json.cases) auto

subsection \<open>The sort and the loop of the daily series\<close>

lemma sort_values_Date_sorted: "sort_values_Date rows = Inr df \<Longrightarrow> sorted (map Date df)"
  by (auto simp: sort_values_Date_def split: if_splits)


text \<open>Both branches have the same shape; \<open>k\<close> is the key and \<open>f\<close> the loop body.\<close>

lemma series_parts:
  assumes "bindE (response_json r) (\<lambda>data.
           bindE (dict_get data k (JObj [])) (\<lambda>ts.
           bindE (dict_items ts) (\<lambda>items.
           bindE (mapE f items) sort_values_Date))) = Inr df"
  obtains st data items rows where
    "r = Response st (Some data)" and "dict_get data k (JObj []) = Inr (JObj items)" and
    "mapE f items = Inr rows" and "sort_values_Date rows = Inr df"
proof -
  from assms obtain data where
    r: "response_json r = Inr data" and
    1: "bindE (dict_get data k (JObj [])) (\<lambda>ts.
          bindE (dict_items ts) (\<lambda>items.
          bindE (mapE f items) sort_values_Date)) = Inr df"
    by (rule bindE_InrE)
  from 1 obtain ts where
    ts: "dict_get data k (JObj []) = Inr ts" and
    2: "bindE (dict_items ts) (\<lambda>items. bindE (mapE f items) sort_values_Date) = Inr df"
    by (rule bindE_InrE)
  from 2 obtain items where
    items: "dict_items ts = Inr items" and
    3: "bindE (mapE f items) sort_values_Date = Inr df"
    by (rule bindE_InrE)
  from 3 obtain rows where
    rows: "mapE f items = Inr rows" and
    df: "sort_values_Date rows = Inr df"
    by (rule bindE_InrE)
  from items have ts_obj: "ts = JObj items"
    by (cases ts) (simp_all add: dict_items_def)
  from response_json_Inr [OF r] obtain st where st: "r = Response st (Some data)" ..
  from st ts [unfolded ts_obj] rows df show thesis
    by (rule that)
qed


lemma crypto_series_sorted: "crypto_series td sf r = Inr df \<Longrightarrow> sorted (map Date df)"
  unfolding crypto_series_def by (erule series_parts) (rule sort_values_Date_sorted)

lemma equity_series_sorted: "equity_series td sf r = Inr df \<Longrightarrow> sorted (map Date df)"
  unfolding equity_series_def by (erule series_parts) (rule sort_values_Date_sorted)

lemma av_try_sorted:
  assumes "av_fetch_daily_series_try rg td sf symbol key = Inr df"
  shows "sorted (map Date df)"
proof (cases "endswith symbol ''-USD''")
  case True
  with assms have
    "bindE (unpack2 (split_str CHR ''-'' symbol)) (\<lambda>(crypto_symbol, market).
          crypto_series td sf
            (rg [(''function'', PStr ''DIGITAL_CURRENCY_DAILY''),
                 (''symbol'', PStr crypto_symbol),
                 (''market'', PStr market),
                 (''apikey'', PStr key)])) = Inr df"
    by (simp add: av_fetch_daily_series_try_def)
  then obtain p where
    "(case p of (crypto_symbol, market) \<Rightarrow>
          crypto_series td sf
            (rg [(''function'', PStr ''DIGITAL_CURRENCY_DAILY''),
                 (''symbol'', PStr crypto_symbol),
                 (''market'', PStr market),
                 (''apikey'', PStr key)])) = Inr df"
    by (rule bindE_InrE)
  then show ?thesis
    by (cases p) (simp add: crypto_series_sorted)
next
  case False
  with assms show ?thesis
    by (simp add: av_fetch_daily_series_try_def equity_series_sorted)
qed

lemma av_sorted: "sorted (map Date (av_fetch_daily_series rg td sf symbol key))"
  by (cases "av_fetch_daily_series_try rg td sf symbol key")
     (simp_all add: av_fetch_daily_series_def av_try_sorted)

subsection \<open>The left merge of the market chart\<close>

lemma merge_left_keys:
  "map fst (merge_left p m) =
     concat (map (\<lambda>(t, pr). replicate (max 1 (length (filter (\<lambda>(t', c). t' = t) m))) t) p)"
proof (induction p)
  case Nil
  then show ?case by (simp add: merge_left_def)
next
  case (Cons a p)
  obtain t pr where a: "a = (t, pr)" by (cases a)
  have "map fst (case filter (\<lambda>(t', c). t' = t) m of
            [] \<Rightarrow> [(t, pr, NaN)] | ms \<Rightarrow> map (\<lambda>(t', c). (t, pr, c)) ms)
        = replicate (max 1 (length (filter (\<lambda>(t', c). t' = t) m))) t"
    by (cases "filter (\<lambda>(t', c). t' = t) m")
       (auto simp: map_replicate_const comp_def case_prod_unfold max_def)
  with Cons show ?case
    by (simp add: merge_left_def a)
qed

lemma set_concat_replicate:
  "set (concat (map (\<lambda>(t, pr). replicate (max 1 (n t)) t) p)) = fst ` set p"
  by (induction p) (auto simp: case_prod_unfold)

lemma sorted_concat_replicate:
  "sorted (concat (map (\<lambda>(t, pr). replicate (max 1 (n t)) t) p)) \<longleftrightarrow> sorted (map fst (p :: (int \<times> fl) list))"
proof (induction p)
  case Nil
  then show ?case by simp
next
  case (Cons a p)
  obtain t pr where a: "a = (t, pr)" by (cases a)
  show ?case
    using Cons by (auto simp: a sorted_append set_concat_replicate)
qed

lemma merge_left_sorted: "sorted (map fst (merge_left p m)) \<longleftrightarrow> sorted (map fst p)"
  unfolding merge_left_keys
  by (rule sorted_concat_replicate [of "\<lambda>t. length (filter (\<lambda>(t', c). t' = t) m)"])

lemma chart_row_fields:
  "mapE (\<lambda>(t, p, c). (case tdm t of
               None \<Rightarrow> Inl ValueError
             | Some d \<Rightarrow> Inr \<lparr>ts = t, price = p, market_cap = c, chart_Date = d\<rparr>)) xs = Inr rows
   \<Longrightarrow> map (\<lambda>r. (ts r, price r, market_cap r)) rows = xs \<and>
       list_all (\<lambda>r. tdm (ts r) = Some (chart_Date r)) rows"
  by (induction xs arbitrary: rows) (auto split: sum.splits option.splits)

lemma get_market_chart_Inr:
  assumes "get_market_chart rg tdm coin days = Inr rows"
    and "rg (GECKO_BASE @ ''/coins/'' @ coin @ ''/market_chart'')
              [(''vs_currency'', PStr ''usd''), (''days'', PInt days)] = Response st (Some js)"
  shows "map (\<lambda>r. (ts r, price r, market_cap r)) rows =
           merge_left (case prices js of None \<Rightarrow> [] | Some ps \<Rightarrow> ps)
                      (case market_caps js of None \<Rightarrow> [] | Some ms \<Rightarrow> ms)"
    and "list_all (\<lambda>r. tdm (ts r) = Some (chart_Date r)) rows"
  using assms chart_row_fields [of tdm _ rows]
  by (simp_all add: get_market_chart_def Let_def)

lemma fetch_history_rows:
  assumes "yf_download ticker start end = Inr df"
  shows "hist_rows (fetch_history yf_download ticker start end) = [] \<or>
         map fst (hist_rows (fetch_history yf_download ticker start end)) = map fst (df_rows df)"
  using assms
  by (auto simp: fetch_history_def fetch_history_try_def Let_def comp_def case_prod_unfold)

subsection \<open>Splitting a symbol\<close>

lemma split_str_not_Nil: "split_str c s \<noteq> []"
  by (induction s) (auto split: list.splits)

lemma length_split_str: "length (split_str c s) = Suc (count_list s c)"
  by (induction s) (auto split: list.splits simp: split_str_not_Nil)

lemma split_str_at_first: "c \<notin> set b \<Longrightarrow> split_str c (b @ c # r) = b # split_str c r"
  by (induction b) (auto split: list.splits)

lemma endswith_USD: "endswith s ''-USD'' \<Longrightarrow> s = take (length s - 4) s @ ''-USD''"
proof -
  assume "endswith s ''-USD''"
  then have "drop (length s - 4) s = ''-USD''"
    by (simp add: endswith_def numeral_eq_Suc)
  then show ?thesis
    using append_take_drop_id [of "length s - 4" s] by simp
qed

lemma split_one_hyphen:
  assumes "endswith s ''-USD''" and "count_list s CHR ''-'' = 1"
  shows "split_str CHR ''-'' s = [take (length s - 4) s, ''USD'']"
proof -
  let ?b = "take (length s - 4) s"
  have s: "s = ?b @ ''-USD''" using assms(1) endswith_USD by blast
  have "count_list s CHR ''-'' = count_list ?b CHR ''-'' + 1"
    by (subst s) simp
  with assms(2) have "count_list ?b CHR ''-'' = 0" by simp
  then have "CHR ''-'' \<notin> set ?b"
    by (simp add: count_list_0_iff)
  then have "split_str CHR ''-'' (?b @ CHR ''-'' # ''USD'') = ?b # split_str CHR ''-'' ''USD''"
    by (rule split_str_at_first)
  moreover have "split_str CHR ''-'' ''USD'' = [''USD'']" by simp
  ultimately show ?thesis using s by simp
qed


lemma unpack2_Inl: "length xs \<noteq> 2 \<Longrightarrow> unpack2 xs = Inl ValueError"
  by (auto simp: unpack2_def split: list.splits)

subsection \<open>The rows of the crypto route\<close>




subsection \<open>The join of the market chart\<close>

lemma filter_key_distinct:
  "distinct (map fst ms) \<Longrightarrow>
     filter (\<lambda>(t', c). t' = t) ms = (case map_of ms t of None \<Rightarrow> [] | Some c \<Rightarrow> [(t, c)])"
proof (induction ms)
  case Nil
  then show ?case by simp
next
  case (Cons a ms)
  obtain t' c where a: "a = (t', c)" by (cases a)
  show ?case
  proof (cases "t' = t")
    case True
    with Cons.prems a have "map_of ms t = None"
      by (simp add: map_of_eq_None_iff)
    with Cons True a show ?thesis by simp
  next
    case False
    with Cons a show ?thesis by simp
  qed
qed

lemma merge_left_Nil: "merge_left [] ms = []"
  by (simp add: merge_left_def)

lemma merge_left_Cons:
  "merge_left ((t, p) # ps) ms =
     (case filter (\<lambda>(t', c). t' = t) ms of
        [] \<Rightarrow> [(t, p, NaN)]
      | ms' \<Rightarrow> map (\<lambda>(t', c). (t, p, c)) ms') @ merge_left ps ms"
  by (simp add: merge_left_def)

lemma merge_left_distinct:
  assumes "distinct (map fst ms)"
  shows "merge_left ps ms =
           map (\<lambda>(t, p). (t, p, case map_of ms t of None \<Rightarrow> NaN | Some c \<Rightarrow> c)) ps"
proof (induction ps)
  case Nil
  then show ?case by (simp add: merge_left_Nil)
next
  case (Cons a ps)
  obtain t p where a: "a = (t, p)" by (cases a)
  show ?case
    unfolding a merge_left_Cons Cons.IH filter_key_distinct [OF assms]
    by (simp split: option.splits)
qed

lemma chart_rows_total:
  assumes "\<forall>x \<in> set xs. tdm (fst x) \<noteq> None"
  shows "mapE (\<lambda>(t, p, c). (case tdm t of
               None \<Rightarrow> Inl ValueError
             | Some d \<Rightarrow> Inr \<lparr>ts = t, price = p, market_cap = c, chart_Date = d\<rparr>)) xs =
         Inr (map (\<lambda>(t, p, c). \<lparr>ts = t, price = p, market_cap = c, chart_Date = the (tdm t)\<rparr>) xs)"
  using assms by (induction xs) (auto split: option.splits)

lemma length_filter_subset:
  assumes "distinct xs" and "distinct ys" and "set ys \<subseteq> set xs"
  shows "length (filter (\<lambda>x. x \<in> set ys) xs) = length ys"
proof -
  have "length (filter (\<lambda>x. x \<in> set ys) xs) = card ({x. x \<in> set ys} \<inter> set xs)"
    using assms(1) by (rule distinct_length_filter)
  also have "{x. x \<in> set ys} \<inter> set xs = set ys"
    using assms(3) by auto
  also have "card (set ys) = length ys"
    using assms(2) by (rule distinct_card)
  finally show ?thesis .
qed

subsection \<open>The rows of the tickers\<close>

lemma make_ticker_row_fields:
  "make_ticker_row t = Inr r \<Longrightarrow> Volume_24h r = t_volume t \<and> Liquidity r = t_trust_score t"
  by (auto simp: make_ticker_row_def split: option.splits json.splits)

lemma ticker_rows_fields:
  "mapE make_ticker_row l = Inr rows \<Longrightarrow>
     map Volume_24h rows = map t_volume l \<and> map Liquidity rows = map t_trust_score l"
proof (induction l arbitrary: rows)
  case Nil
  then show ?case by simp
next
  case (Cons t l)
  then show ?case
    by (auto split: sum.splits dest: make_ticker_row_fields)
qed

lemma get_market_tickers_Inr:
  assumes "get_market_tickers rg coin = Inr mt"
    and "rg (GECKO_BASE @ ''/coins/'' @ coin @ ''/tickers'') = Response st (Some js)"
  obtains rows where
    "mapE make_ticker_row (case tickers js of None \<Rightarrow> [] | Some l \<Rightarrow> l) = Inr rows" and
    "mt = map (\<lambda>(r, p). ticker_row.extend r \<lparr>Volume_pct = p\<rparr>)
            (zip rows (volume_percent (volume_column (map Volume_24h rows))))"
proof -
  from assms have
    "bindE (mapE make_ticker_row (case tickers js of None \<Rightarrow> [] | Some l \<Rightarrow> l)) (\<lambda>rows.
       Inr (map (\<lambda>(r, p). ticker_row.extend r \<lparr>Volume_pct = p\<rparr>)
              (zip rows (volume_percent (volume_column (map Volume_24h rows)))))) = Inr mt"
    by (simp add: get_market_tickers_def)
  then obtain rows where
    "mapE make_ticker_row (case tickers js of None \<Rightarrow> [] | Some l \<Rightarrow> l) = Inr rows" and
    "Inr (map (\<lambda>(r, p). ticker_row.extend r \<lparr>Volume_pct = p\<rparr>)
              (zip rows (volume_percent (volume_column (map Volume_24h rows))))) =
       (Inr mt :: pyerr + ticker_row_pct list)"
    by (rule bindE_InrE)
  then show thesis
    by (intro that [of rows]) simp_all
qed

lemma length_volume_percent: "length (volume_percent (volume_column cells)) = length cells"
  by (simp add: volume_percent_def volume_column_def Let_def)

lemma extend_fields:
  "Volume_pct (ticker_row.extend r \<lparr>Volume_pct = x\<rparr>) = x"
  "Liquidity (ticker_row.extend r \<lparr>Volume_pct = x\<rparr>) = Liquidity r"
  by (simp_all add: ticker_row.extend_def ticker_row.defs ticker_row_pct.defs)

lemma zip_extend:
  assumes "length ps = length rows"
  shows "map Volume_pct (map (\<lambda>(r, p). ticker_row.extend r \<lparr>Volume_pct = p\<rparr>) (zip rows ps)) = ps"
    and "map Liquidity (map (\<lambda>(r, p). ticker_row.extend r \<lparr>Volume_pct = p\<rparr>) (zip rows ps)) =
           map Liquidity rows"
  using assms by (induction ps rows rule: list_induct2) (simp_all add: extend_fields)

text \<open>The two columns of the frame \<^verbatim>\<open>get_market_tickers\<close> returns.\<close>

lemma tickers_frame:
  assumes "get_market_tickers rg coin = Inr mt"
    and "rg (GECKO_BASE @ ''/coins/'' @ coin @ ''/tickers'') = Response st (Some js)"
  shows "map Volume_pct mt =
           volume_percent (volume_column
             (map t_volume (case tickers js of None \<Rightarrow> [] | Some l \<Rightarrow> l)))"
    and "map Liquidity mt = map t_trust_score (case tickers js of None \<Rightarrow> [] | Some l \<Rightarrow> l)"
proof -
  let ?l = "case tickers js of None \<Rightarrow> [] | Some l \<Rightarrow> l"
  from assms obtain rows where
    rows: "mapE make_ticker_row ?l = Inr rows" and
    mt: "mt = map (\<lambda>(r, p). ticker_row.extend r \<lparr>Volume_pct = p\<rparr>)
            (zip rows (volume_percent (volume_column (map Volume_24h rows))))"
    by (rule get_market_tickers_Inr)
  note f = ticker_rows_fields [OF rows]
  have len: "length (volume_percent (volume_column (map Volume_24h rows))) = length rows"
    by (simp add: length_volume_percent)
  from f have v: "map Volume_24h rows = map t_volume ?l" ..
  from f have l: "map Liquidity rows = map t_trust_score ?l" ..
  have "map Volume_pct mt = volume_percent (volume_column (map Volume_24h rows))"
    unfolding mt by (rule zip_extend(1) [OF len])
  then show "map Volume_pct mt = volume_percent (volume_column (map t_volume ?l))"
    unfolding v .
  have "map Liquidity mt = map Liquidity rows"
    unfolding mt by (rule zip_extend(2) [OF len])
  then show "map Liquidity mt = map t_trust_score ?l"
    unfolding l .
qed

text \<open>The frame of a body whose tickers all have a dict as their market.\<close>

lemma a_ticker_rows:
  "mapE make_ticker_row (map (\<lambda>(v, trust). a_ticker v trust) vts) =
     Inr (map (\<lambda>(v, trust).
            \<lparr>Exchange = Some (JStr ''X''), Pair = (Some (JStr ''BTC''), Some (JStr ''USD'')),
             Price = Some (JNum (Fin 5)), Volume_24h = v, Liquidity = trust,
             Trade_URL = None\<rparr>) vts)"
  by (induction vts) (auto simp: a_ticker_def make_ticker_row_def)

lemma map_liq_cases:
  "map_liq x =
     (case x of
        Some (JStr s) \<Rightarrow>
          (if s = ''green'' then PyInt 3 else if s = ''yellow'' then PyInt 2
           else if s = ''red'' then PyInt 1 else PyFloat NaN)
      | _ \<Rightarrow> PyFloat NaN)"
  by (cases x; simp add: map_liq_def split: json.splits)

section \<open>The percent change of the snapshot\<close>

text \<open>
  What holds of \<^verbatim>\<open>compute_snapshot_from_series\<close> for every series: NaN for fewer than 2
  bars, and for at least 2 bars the float expression \<open>(last - prev) / prev * 100\<close> on the
  last and the second-to-last close, which is NaN when the second-to-last close is NaN.
\<close>

lemma snapshot_pct_formula:
  fixes df :: "'d bar list"
  shows "length df < 2 \<Longrightarrow> Pct_Change (compute_snapshot_from_series df) = NaN"
    and "2 \<le> length df \<Longrightarrow>
      Pct_Change (compute_snapshot_from_series df) =
        fl_mul (fl_div (fl_sub (Close (df ! (length df - 1))) (Close (df ! (length df - 2))))
                  (Close (df ! (length df - 2)))) (Fin 100)"
    and "2 \<le> length df \<Longrightarrow> isnan (Close (df ! (length df - 2))) \<Longrightarrow>
      Pct_Change (compute_snapshot_from_series df) = NaN"
  by (auto simp: compute_snapshot_from_series_def Let_def isnan_def fl_nan_absorbs)

text \<open>
  C3, at the failing input. The function guards the division against a NaN second-to-last
  close, before it and after it, and not against a zero one: on the closes 0 then 110 the
  percent change is \<open>+inf\<close> where the claim has NaN (and \<open>-inf\<close> on the closes 0
  then -110). The rest of the claim holds at its inputs: the closes 100 then 110 give 10.0,
  a single bar gives NaN, a NaN second-to-last close gives NaN; so do the closes 0 then 0.
  On the closes 0.1 then 0.3 the float result is 199.99999999999997.
\<close>

theorem pct_change_zero_prev:
  "Pct_Change (compute_snapshot_from_series [close_bar 1 (Fin 0), close_bar 2 (Fin 110)]) = PInf \<and>
   Pct_Change (compute_snapshot_from_series [close_bar 1 (Fin 0), close_bar 2 (Fin (- 110))]) = NInf \<and>
   Pct_Change (compute_snapshot_from_series [close_bar 1 (Fin 0), close_bar 2 (Fin 0)]) = NaN \<and>
   Pct_Change (compute_snapshot_from_series [close_bar 1 (Fin 100), close_bar 2 (Fin 110)]) = Fin 10 \<and>
   Pct_Change (compute_snapshot_from_series [close_bar 2 (Fin 110)]) = NaN \<and>
   Pct_Change (compute_snapshot_from_series [close_bar 1 NaN, close_bar 2 (Fin 110)]) = NaN \<and>
   Pct_Change (compute_snapshot_from_series
      [close_bar 1 (Fin (3602879701896397 / 36028797018963968)),
       close_bar 2 (Fin (5404319552844595 / 18014398509481984))]) =
     Fin (7036874417766399 / 35184372088832)"
  by (simp add: compute_snapshot_from_series_def close_bar_def fl_eval)

section \<open>The order of the series\<close>

text \<open>
  C1, as stated, fails for \<^verbatim>\<open>get_market_chart\<close>: it has no sort, so a payload whose
  price entries arrive the later one first gives a frame in that order, with descending
  dates (the date of a timestamp is here the timestamp itself).
\<close>

theorem chart_order_counterexample:
  "get_market_chart chart_out_of_order Some ''bitcoin'' 7 =
     Inr [\<lparr>ts = 2, price = Fin 5, market_cap = NaN, chart_Date = 2\<rparr>,
          \<lparr>ts = 1, price = Fin 6, market_cap = Fin 9, chart_Date = 1\<rparr>] \<and>
   \<not> sorted (map chart_Date
          [\<lparr>ts = 2, price = Fin 5, market_cap = NaN, chart_Date = 2::int\<rparr>,
           \<lparr>ts = 1, price = Fin 6, market_cap = Fin 9, chart_Date = 1\<rparr>])"
  by (simp add: get_market_chart_def chart_out_of_order_def merge_left_def)

text \<open>
  C1, amended. The series \<^verbatim>\<open>av_fetch_daily_series\<close> returns is in ascending order of
  \<^verbatim>\<open>Date\<close> for every payload. \<^verbatim>\<open>get_market_chart\<close> and \<^verbatim>\<open>fetch_history\<close> do not
  sort: the rows of \<^verbatim>\<open>get_market_chart\<close>, each dated by its timestamp, are in ascending
  order of timestamp exactly when the price entries of the payload are, and a non-empty
  result of \<^verbatim>\<open>fetch_history\<close> has the dates of the downloaded frame in the order of the
  download.
\<close>

theorem series_order:
  "sorted (map Date (av_fetch_daily_series rg td sf symbol key)) \<and>
   (get_market_chart rg' tdm coin days = Inr rows \<and>
    rg' (GECKO_BASE @ ''/coins/'' @ coin @ ''/market_chart'')
        [(''vs_currency'', PStr ''usd''), (''days'', PInt days)] = Response st (Some js) \<longrightarrow>
      list_all (\<lambda>r. tdm (ts r) = Some (chart_Date r)) rows \<and>
      (sorted (map ts rows) \<longleftrightarrow>
         sorted (map fst (case prices js of None \<Rightarrow> [] | Some ps \<Rightarrow> ps)))) \<and>
   (yf_download ticker start end = Inr df \<longrightarrow>
      hist_rows (fetch_history yf_download ticker start end) = [] \<or>
      map fst (hist_rows (fetch_history yf_download ticker start end)) = map fst (df_rows df))"
proof (intro conjI impI)
  show "sorted (map Date (av_fetch_daily_series rg td sf symbol key))"
    by (rule av_sorted)
next
  assume a: "get_market_chart rg' tdm coin days = Inr rows \<and>
    rg' (GECKO_BASE @ ''/coins/'' @ coin @ ''/market_chart'')
        [(''vs_currency'', PStr ''usd''), (''days'', PInt days)] = Response st (Some js)"
  then show "list_all (\<lambda>r. tdm (ts r) = Some (chart_Date r)) rows"
    using get_market_chart_Inr(2) by blast
  let ?p = "case prices js of None \<Rightarrow> [] | Some ps \<Rightarrow> ps"
  let ?m = "case market_caps js of None \<Rightarrow> [] | Some ms \<Rightarrow> ms"
  have "map (\<lambda>r. (ts r, price r, market_cap r)) rows = merge_left ?p ?m"
    using a get_market_chart_Inr(1) by blast
  then have "map fst (merge_left ?p ?m) = map ts rows"
    by (metis (mono_tags, lifting) fst_conv map_eq_conv map_map o_apply)
  then show "sorted (map ts rows) \<longleftrightarrow> sorted (map fst ?p)"
    using merge_left_sorted [of ?p ?m] by simp
next
  assume "yf_download ticker start end = Inr df"
  then show "hist_rows (fetch_history yf_download ticker start end) = [] \<or>
      map fst (hist_rows (fetch_history yf_download ticker start end)) = map fst (df_rows df)"
    by (rule fetch_history_rows)
qed

text \<open>
  The theorem at the payload of two days, at the chart and at the download that arrive
  out of order.
\<close>

theorem series_order_witness:
  "map Date (av_fetch_daily_series av_two_days day_of no_float ''BTC-USD'' ''k'') = [1, 2] \<and>
   sorted (map Date (av_fetch_daily_series av_two_days day_of no_float ''BTC-USD'' ''k'')) \<and>
   get_market_chart chart_out_of_order Some ''bitcoin'' 7 =
     Inr [\<lparr>ts = 2, price = Fin 5, market_cap = NaN, chart_Date = 2\<rparr>,
          \<lparr>ts = 1, price = Fin 6, market_cap = Fin 9, chart_Date = 1\<rparr>] \<and>
   \<not> sorted (map ts [\<lparr>ts = 2, price = Fin 5, market_cap = NaN, chart_Date = 2::int\<rparr>,
                      \<lparr>ts = 1, price = Fin 6, market_cap = Fin 9, chart_Date = 1\<rparr>]) \<and>
   map fst (hist_rows (fetch_history download_out_of_order ''LE=F'' () ())) = [2, 1]"
proof -
  have av: "map Date (av_fetch_daily_series av_two_days day_of no_float ''BTC-USD'' ''k'') = [1, 2]"
    by (simp add: endswith_def av_fetch_daily_series_def av_fetch_daily_series_try_def unpack2_def
      crypto_series_def av_two_days_def dict_get_def dict_items_def get_float_def py_float_def
      parse_date_def day_of_def sort_values_Date_def)
  have chart: "get_market_chart chart_out_of_order Some ''bitcoin'' 7 =
     Inr [\<lparr>ts = 2, price = Fin 5, market_cap = NaN, chart_Date = 2\<rparr>,
          \<lparr>ts = 1, price = Fin 6, market_cap = Fin 9, chart_Date = 1\<rparr>]"
    by (simp add: get_market_chart_def chart_out_of_order_def merge_left_def)
  have resp: "chart_out_of_order (GECKO_BASE @ ''/coins/'' @ ''bitcoin'' @ ''/market_chart'')
        [(''vs_currency'', PStr ''usd''), (''days'', PInt 7)] =
      Response 200
        (Some \<lparr>prices = Some [(2, Fin 5), (1, Fin 6)], market_caps = Some [(1, Fin 9)]\<rparr>)"
    by (simp add: chart_out_of_order_def)
  have dl: "download_out_of_order ''LE=F'' () () =
     Inr \<lparr>df_columns = MultiIndex [(''Close'', [''LE=F'']), (''Open'', [''LE=F''])],
          df_rows = [(2, [Fin 1, Fin 2]), (1, [Fin 3, Fin 4])]\<rparr>"
    by (simp add: download_out_of_order_def)
  have hist: "hist_rows (fetch_history download_out_of_order ''LE=F'' () ()) \<noteq> []"
    by (simp add: fetch_history_def fetch_history_try_def download_out_of_order_def Let_def
      str_title_def is_lower_def is_upper_def to_lower_def to_upper_def)
  from series_order [where rg = av_two_days and td = day_of and sf = no_float
      and symbol = "''BTC-USD''" and key = "''k''" and rg' = chart_out_of_order
      and tdm = Some and coin = "''bitcoin''" and days = 7 and st = 200
      and rows = "[\<lparr>ts = 2, price = Fin 5, market_cap = NaN, chart_Date = 2\<rparr>,
                   \<lparr>ts = 1, price = Fin 6, market_cap = Fin 9, chart_Date = 1\<rparr>]"
      and js = "\<lparr>prices = Some [(2, Fin 5), (1, Fin 6)], market_caps = Some [(1, Fin 9)]\<rparr>"
      and yf_download = download_out_of_order and ticker = "''LE=F''" and start = "()"
      and ?end = "()"
      and df = "\<lparr>df_columns = MultiIndex [(''Close'', [''LE=F'']), (''Open'', [''LE=F''])],
                 df_rows = [(2, [Fin 1, Fin 2]), (1, [Fin 3, Fin 4])]\<rparr>"]
    av chart resp dl hist
  show ?thesis
    by simp
qed

section \<open>The dispatch on the symbol\<close>

text \<open>
  C4, as stated, fails for a symbol with a second hyphen: the code splits at every hyphen
  and unpacks two parts, so \<^verbatim>\<open>"A-B-USD"\<close> raises \<^verbatim>\<open>ValueError\<close> before any request and
  the function returns the empty frame, although the crypto request for the base
  \<^verbatim>\<open>"A-B"\<close> and the quote \<^verbatim>\<open>"USD"\<close> would have given two bars.
\<close>

theorem split_every_hyphen_counterexample:
  "endswith ''A-B-USD'' ''-USD'' \<and>
   av_fetch_daily_series_try av_two_days day_of no_float ''A-B-USD'' ''k'' = Inl ValueError \<and>
   av_fetch_daily_series av_two_days day_of no_float ''A-B-USD'' ''k'' = [] \<and>
   crypto_series day_of no_float
     (av_two_days [(''function'', PStr ''DIGITAL_CURRENCY_DAILY''), (''symbol'', PStr ''A-B''),
                   (''market'', PStr ''USD''), (''apikey'', PStr ''k'')]) =
     Inr [\<lparr>Date = 1, Open = NaN, High = NaN, Low = NaN, Close = Fin 100, Volume = NaN\<rparr>,
          \<lparr>Date = 2, Open = NaN, High = Fin 120, Low = NaN, Close = Fin 110, Volume = NaN\<rparr>]"
  by (simp add: endswith_def av_fetch_daily_series_def av_fetch_daily_series_try_def unpack2_def
      crypto_series_def av_two_days_def dict_get_def dict_items_def get_float_def py_float_def
      parse_date_def day_of_def sort_values_Date_def)

text \<open>
  C4, amended. A symbol that ends in \<^verbatim>\<open>"-USD"\<close> and has this hyphen only is split into
  the base before the hyphen and the quote \<^verbatim>\<open>"USD"\<close> and goes the crypto way: the result
  is that of the \<^verbatim>\<open>DIGITAL_CURRENCY_DAILY\<close> request for them. A symbol that ends in
  \<^verbatim>\<open>"-USD"\<close> and has a further hyphen makes no request and gives the empty frame. A symbol
  without the suffix goes the equity way unchanged: the result is that of the
  \<^verbatim>\<open>TIME_SERIES_DAILY\<close> request for it.
\<close>

theorem symbol_dispatch:
  "(endswith symbol ''-USD'' \<and> count_list symbol CHR ''-'' = 1 \<longrightarrow>
      av_fetch_daily_series_try rg td sf symbol key =
        crypto_series td sf
          (rg [(''function'', PStr ''DIGITAL_CURRENCY_DAILY''),
               (''symbol'', PStr (take (length symbol - 4) symbol)),
               (''market'', PStr ''USD''),
               (''apikey'', PStr key)])) \<and>
   (endswith symbol ''-USD'' \<and> count_list symbol CHR ''-'' \<noteq> 1 \<longrightarrow>
      av_fetch_daily_series_try rg td sf symbol key = Inl ValueError \<and>
      av_fetch_daily_series rg td sf symbol key = []) \<and>
   (\<not> endswith symbol ''-USD'' \<longrightarrow>
      av_fetch_daily_series_try rg td sf symbol key =
        equity_series td sf
          (rg [(''function'', PStr ''TIME_SERIES_DAILY''),
               (''symbol'', PStr symbol),
               (''outputsize'', PStr ''compact''),
               (''apikey'', PStr key)]))"
proof -
  have one: "av_fetch_daily_series_try rg td sf symbol key =
        crypto_series td sf
          (rg [(''function'', PStr ''DIGITAL_CURRENCY_DAILY''),
               (''symbol'', PStr (take (length symbol - 4) symbol)),
               (''market'', PStr ''USD''),
               (''apikey'', PStr key)])"
    if a: "endswith symbol ''-USD''" "count_list symbol CHR ''-'' = 1"
  proof -
    have "split_str CHR ''-'' symbol = [take (length symbol - 4) symbol, ''USD'']"
      using a by (rule split_one_hyphen)
    then show ?thesis
      using a(1) by (simp add: av_fetch_daily_series_try_def unpack2_def)
  qed
  have more: "av_fetch_daily_series_try rg td sf symbol key = Inl ValueError \<and>
      av_fetch_daily_series rg td sf symbol key = []"
    if a: "endswith symbol ''-USD''" "count_list symbol CHR ''-'' \<noteq> 1"
  proof -
    have "length (split_str CHR ''-'' symbol) \<noteq> 2"
      using a(2) by (simp add: length_split_str)
    then have "unpack2 (split_str CHR ''-'' symbol) = Inl ValueError"
      by (rule unpack2_Inl)
    then show ?thesis
      using a(1) by (simp add: av_fetch_daily_series_def av_fetch_daily_series_try_def)
  qed
  have none: "av_fetch_daily_series_try rg td sf symbol key =
        equity_series td sf
          (rg [(''function'', PStr ''TIME_SERIES_DAILY''),
               (''symbol'', PStr symbol),
               (''outputsize'', PStr ''compact''),
               (''apikey'', PStr key)])"
    if "\<not> endswith symbol ''-USD''"
    using that by (simp add: av_fetch_daily_series_try_def)
  from one more none show ?thesis
    by blast
qed

text \<open>The theorem at \<^verbatim>\<open>"BTC-USD"\<close>, at \<^verbatim>\<open>"A-B-USD"\<close> and at \<^verbatim>\<open>"AAPL"\<close>.\<close>

theorem symbol_dispatch_witness:
  "av_fetch_daily_series_try av_two_days day_of no_float ''BTC-USD'' ''k'' =
     crypto_series day_of no_float
       (av_two_days [(''function'', PStr ''DIGITAL_CURRENCY_DAILY''), (''symbol'', PStr ''BTC''),
                     (''market'', PStr ''USD''), (''apikey'', PStr ''k'')]) \<and>
   av_fetch_daily_series_try av_two_days day_of no_float ''A-B-USD'' ''k'' = Inl ValueError \<and>
   av_fetch_daily_series_try av_two_days day_of no_float ''AAPL'' ''k'' =
     equity_series day_of no_float
       (av_two_days [(''function'', PStr ''TIME_SERIES_DAILY''), (''symbol'', PStr ''AAPL''),
                     (''outputsize'', PStr ''compact''), (''apikey'', PStr ''k'')])"
  using symbol_dispatch [where symbol = "''BTC-USD''" and rg = av_two_days and td = day_of
      and sf = no_float and key = "''k''"]
    symbol_dispatch [where symbol = "''A-B-USD''" and rg = av_two_days and td = day_of
      and sf = no_float and key = "''k''"]
    symbol_dispatch [where symbol = "''AAPL''" and rg = av_two_days and td = day_of
      and sf = no_float and key = "''k''"]
  by (simp add: endswith_def)

section \<open>The bars of the crypto route\<close>



section \<open>The join of prices and market caps\<close>

text \<open>
  What \<^verbatim>\<open>get_market_chart\<close> returns when the market caps have distinct timestamps and
  every timestamp converts: one row per price entry, in order, with the market cap of the
  same timestamp, or NaN.
\<close>

lemma get_market_chart_join:
  assumes "rg (GECKO_BASE @ ''/coins/'' @ coin @ ''/market_chart'')
              [(''vs_currency'', PStr ''usd''), (''days'', PInt days)] = Response st (Some js)"
    and "prices js = Some ps" and "market_caps js = Some ms"
    and "distinct (map fst ms)"
    and "\<forall>t \<in> set (map fst ps). tdm t \<noteq> None"
  shows "get_market_chart rg tdm coin days =
           Inr (map (\<lambda>(t, p). \<lparr>ts = t, price = p,
                       market_cap = (case map_of ms t of None \<Rightarrow> NaN | Some c \<Rightarrow> c),
                       chart_Date = the (tdm t)\<rparr>) ps)"
proof -
  let ?xs = "map (\<lambda>(t, p). (t, p, case map_of ms t of None \<Rightarrow> NaN | Some c \<Rightarrow> c)) ps"
  have "\<forall>x \<in> set ?xs. tdm (fst x) \<noteq> None"
    using assms(5) by auto
  from chart_rows_total [OF this] assms(1,2,3) show ?thesis
    by (simp add: get_market_chart_def merge_left_distinct [OF assms(4)] comp_def
        case_prod_unfold)
qed

text \<open>
  C8. For a market-chart payload of 7 price entries and 5 market caps whose timestamps are
  5 of the price timestamps (distinct timestamps, each convertible to a date),
  \<^verbatim>\<open>get_market_chart\<close> returns exactly 7 rows, those of the price entries; the 5 rows
  with a matching timestamp carry the market cap given for it, and the other 2 carry NaN.
\<close>

theorem market_chart_seven_five:
  assumes "rg (GECKO_BASE @ ''/coins/'' @ coin @ ''/market_chart'')
              [(''vs_currency'', PStr ''usd''), (''days'', PInt days)] = Response st (Some js)"
    and "prices js = Some ps" and "market_caps js = Some ms"
    and "length ps = 7" and "length ms = 5"
    and "distinct (map fst ps)" and "distinct (map fst ms)"
    and "set (map fst ms) \<subseteq> set (map fst ps)"
    and "\<forall>t \<in> set (map fst ps). tdm t \<noteq> None"
  shows "\<exists>rows. get_market_chart rg tdm coin days = Inr rows \<and>
           length rows = 7 \<and>
           map (\<lambda>r. (ts r, price r)) rows = ps \<and>
           length (filter (\<lambda>r. ts r \<in> set (map fst ms)) rows) = 5 \<and>
           (\<forall>r \<in> set rows. ts r \<in> set (map fst ms) \<longrightarrow> map_of ms (ts r) = Some (market_cap r)) \<and>
           length (filter (\<lambda>r. ts r \<notin> set (map fst ms)) rows) = 2 \<and>
           (\<forall>r \<in> set rows. ts r \<notin> set (map fst ms) \<longrightarrow> market_cap r = NaN)"
proof -
  let ?g = "\<lambda>(t, p). \<lparr>ts = t, price = p,
                       market_cap = (case map_of ms t of None \<Rightarrow> NaN | Some c \<Rightarrow> c),
                       chart_Date = the (tdm t)\<rparr>"
  let ?rows = "map ?g ps"
  have res: "get_market_chart rg tdm coin days = Inr ?rows"
    using assms(1,2,3,7,9) by (rule get_market_chart_join)
  have len: "length ?rows = 7"
    using assms(4) by simp
  have same: "map (\<lambda>r. (ts r, price r)) ?rows = ps"
    by (simp add: comp_def case_prod_unfold)
  have "filter (\<lambda>r. ts r \<in> set (map fst ms)) ?rows =
          map ?g (filter (\<lambda>x. fst x \<in> set (map fst ms)) ps)"
    by (simp add: filter_map comp_def case_prod_unfold)
  then have "length (filter (\<lambda>r. ts r \<in> set (map fst ms)) ?rows) =
          length (filter (\<lambda>t. t \<in> set (map fst ms)) (map fst ps))"
    by (simp add: filter_map comp_def)
  also have "\<dots> = length ms"
    using length_filter_subset [OF assms(6,7,8)] by simp
  finally have match: "length (filter (\<lambda>r. ts r \<in> set (map fst ms)) ?rows) = 5"
    using assms(5) by simp
  have "length (filter (\<lambda>r. ts r \<in> set (map fst ms)) ?rows) +
        length (filter (\<lambda>r. ts r \<notin> set (map fst ms)) ?rows) = length ?rows"
    by (rule sum_length_filter_compl)
  with match len have rest: "length (filter (\<lambda>r. ts r \<notin> set (map fst ms)) ?rows) = 2"
    by simp
  have caps: "\<forall>r \<in> set ?rows. ts r \<in> set (map fst ms) \<longrightarrow> map_of ms (ts r) = Some (market_cap r)"
  proof (intro ballI impI)
    fix r
    assume "r \<in> set ?rows" and in_ms: "ts r \<in> set (map fst ms)"
    then obtain t p where r: "r = ?g (t, p)"
      by auto
    from in_ms have "map_of ms t \<noteq> None"
      by (simp add: r map_of_eq_None_iff)
    then obtain c where "map_of ms t = Some c"
      by auto
    then show "map_of ms (ts r) = Some (market_cap r)"
      by (simp add: r)
  qed
  have nans: "\<forall>r \<in> set ?rows. ts r \<notin> set (map fst ms) \<longrightarrow> market_cap r = NaN"
  proof (intro ballI impI)
    fix r
    assume "r \<in> set ?rows" and out: "ts r \<notin> set (map fst ms)"
    then obtain t p where r: "r = ?g (t, p)"
      by auto
    from out have "map_of ms t = None"
      by (simp add: r map_of_eq_None_iff)
    then show "market_cap r = NaN"
      by (simp add: r)
  qed
  from res len same match caps rest nans show ?thesis
    by (intro exI [of _ ?rows] conjI)
qed

text \<open>The theorem at a payload of seven prices and five market caps.\<close>

theorem market_chart_seven_five_witness:
  "chart_seven_five (GECKO_BASE @ ''/coins/'' @ ''bitcoin'' @ ''/market_chart'')
     [(''vs_currency'', PStr ''usd''), (''days'', PInt 7)] =
     Response 200
       (Some \<lparr>prices = Some [(1, Fin 10), (2, Fin 20), (3, Fin 30), (4, Fin 40), (5, Fin 50),
                               (6, Fin 60), (7, Fin 70)],
              market_caps = Some [(1, Fin 100), (2, Fin 200), (4, Fin 400), (5, Fin 500),
                                  (7, Fin 700)]\<rparr>) \<and>
   (\<exists>rows. get_market_chart chart_seven_five Some ''bitcoin'' 7 = Inr rows \<and>
      length rows = 7 \<and>
      map (\<lambda>r. (ts r, price r)) rows =
        [(1, Fin 10), (2, Fin 20), (3, Fin 30), (4, Fin 40), (5, Fin 50), (6, Fin 60),
         (7, Fin 70)] \<and>
      map market_cap rows = [Fin 100, Fin 200, NaN, Fin 400, Fin 500, NaN, Fin 700])"
proof -
  let ?ps = "[(1, Fin 10), (2, Fin 20), (3, Fin 30), (4, Fin 40), (5, Fin 50), (6, Fin 60),
              (7::int, Fin 70)]"
  let ?ms = "[(1, Fin 100), (2, Fin 200), (4, Fin 400), (5, Fin 500), (7::int, Fin 700)]"
  have resp: "chart_seven_five (GECKO_BASE @ ''/coins/'' @ ''bitcoin'' @ ''/market_chart'')
     [(''vs_currency'', PStr ''usd''), (''days'', PInt 7)] =
     Response 200 (Some \<lparr>prices = Some ?ps, market_caps = Some ?ms\<rparr>)"
    by (simp add: chart_seven_five_def)
  have "\<exists>rows. get_market_chart chart_seven_five Some ''bitcoin'' 7 = Inr rows \<and>
           length rows = 7 \<and>
           map (\<lambda>r. (ts r, price r)) rows = ?ps \<and>
           length (filter (\<lambda>r. ts r \<in> set (map fst ?ms)) rows) = 5 \<and>
           (\<forall>r \<in> set rows. ts r \<in> set (map fst ?ms) \<longrightarrow> map_of ?ms (ts r) = Some (market_cap r)) \<and>
           length (filter (\<lambda>r. ts r \<notin> set (map fst ?ms)) rows) = 2 \<and>
           (\<forall>r \<in> set rows. ts r \<notin> set (map fst ?ms) \<longrightarrow> market_cap r = NaN)"
    by (rule market_chart_seven_five
          [where rg = chart_seven_five and coin = "''bitcoin''" and days = 7 and tdm = Some,
           OF resp])
       simp_all
  then obtain rows where
    r: "get_market_chart chart_seven_five Some ''bitcoin'' 7 = Inr rows" and
    l: "length rows = 7" and p: "map (\<lambda>r. (ts r, price r)) rows = ?ps"
    by (elim exE conjE)
  have "get_market_chart chart_seven_five Some ''bitcoin'' 7 =
     Inr [\<lparr>ts = 1, price = Fin 10, market_cap = Fin 100, chart_Date = 1\<rparr>,
          \<lparr>ts = 2, price = Fin 20, market_cap = Fin 200, chart_Date = 2\<rparr>,
          \<lparr>ts = 3, price = Fin 30, market_cap = NaN, chart_Date = 3\<rparr>,
          \<lparr>ts = 4, price = Fin 40, market_cap = Fin 400, chart_Date = 4\<rparr>,
          \<lparr>ts = 5, price = Fin 50, market_cap = Fin 500, chart_Date = 5\<rparr>,
          \<lparr>ts = 6, price = Fin 60, market_cap = NaN, chart_Date = 6\<rparr>,
          \<lparr>ts = 7, price = Fin 70, market_cap = Fin 700, chart_Date = 7\<rparr>]"
    by (simp add: get_market_chart_def chart_seven_five_def merge_left_def)
  with r have c: "map market_cap rows = [Fin 100, Fin 200, NaN, Fin 400, Fin 500, NaN, Fin 700]"
    by auto
  from resp r l p c show ?thesis
    by (intro conjI exI [of _ rows])
qed

section \<open>The volume share and the liquidity score of the markets table\<close>





text \<open>
  C10. In the markets table built from \<^verbatim>\<open>get_market_tickers\<close>, the liquidity score of
  the row of a ticker is 3 when its \<^verbatim>\<open>trust_score\<close> is \<^verbatim>\<open>"green"\<close>, 2 when it is
  \<^verbatim>\<open>"yellow"\<close>, 1 when it is \<^verbatim>\<open>"red"\<close>, and NaN for any other value and for none.
\<close>

theorem liquidity_score_of_trust_score:
  assumes "get_market_tickers rg coin = Inr mt"
    and "rg (GECKO_BASE @ ''/coins/'' @ coin @ ''/tickers'') = Response st (Some js)"
  shows "liquidity_score mt =
           map (\<lambda>t. case t_trust_score t of
                       Some (JStr s) \<Rightarrow>
                         (if s = ''green'' then PyInt 3 else if s = ''yellow'' then PyInt 2
                          else if s = ''red'' then PyInt 1 else PyFloat NaN)
                     | _ \<Rightarrow> PyFloat NaN)
               (case tickers js of None \<Rightarrow> [] | Some l \<Rightarrow> l)"
proof -
  let ?l = "case tickers js of None \<Rightarrow> [] | Some l \<Rightarrow> l"
  from assms have "map Liquidity mt = map t_trust_score ?l"
    by (rule tickers_frame(2))
  then have "map map_liq (map Liquidity mt) = map map_liq (map t_trust_score ?l)"
    by simp
  then show ?thesis
    by (simp add: liquidity_score_def comp_def map_liq_cases)
qed

text \<open>The theorem at tickers with the scores yellow, red and a number, and green and none.\<close>

theorem liquidity_score_of_trust_score_witness:
  "map_sum id liquidity_score (get_market_tickers tickers_no_volume ''bitcoin'') =
     Inr [PyInt 2, PyInt 1, PyFloat NaN] \<and>
   map_sum id liquidity_score (get_market_tickers tickers_one_two ''bitcoin'') =
     Inr [PyInt 3, PyFloat NaN]"
proof -
  have ex: "\<exists>mt. get_market_tickers (tickers_body (map (\<lambda>(v, trust). a_ticker v trust) vts))
                   ''bitcoin'' = Inr mt" for vts
    by (simp add: get_market_tickers_def tickers_body_def a_ticker_rows)
  have r: "tickers_body l (GECKO_BASE @ ''/coins/'' @ ''bitcoin'' @ ''/tickers'') =
      Response 200 (Some \<lparr>tickers = Some l\<rparr>)" for l
    by (simp add: tickers_body_def)
  from ex [of "[(Some (VInt 0), Some (JStr ''yellow'')), (Some (VInt 0), Some (JStr ''red'')),
                (Some (VInt 0), Some (JNum (Fin 3)))]"]
  obtain mt0 where mt0: "get_market_tickers tickers_no_volume ''bitcoin'' = Inr mt0"
    by (auto simp: tickers_no_volume_def)
  from ex [of "[(Some (VFloat (Fin 1)), Some (JStr ''green'')), (Some (VFloat (Fin 2)), None)]"]
  obtain mt1 where mt1: "get_market_tickers tickers_one_two ''bitcoin'' = Inr mt1"
    by (auto simp: tickers_one_two_def)
  from liquidity_score_of_trust_score [OF mt0 [unfolded tickers_no_volume_def] r]
       liquidity_score_of_trust_score [OF mt1 [unfolded tickers_one_two_def] r]
  show ?thesis
    by (simp add: mt0 mt1 a_ticker_def)
qed

section \<open>Failures of the request and empty payloads\<close>

text \<open>
  C2, at the failing inputs. \<^verbatim>\<open>get_market_chart\<close>, \<^verbatim>\<open>get_markets_for_cards\<close> and
  \<^verbatim>\<open>get_market_tickers\<close> have no \<^verbatim>\<open>try\<close>: an exception of the request (a timeout, a
  failed connection) and the \<^verbatim>\<open>JSONDecodeError\<close> of a body that is not JSON leave the
  function, whatever the status code. \<^verbatim>\<open>av_fetch_daily_series\<close>, \<^verbatim>\<open>get_fear_greed\<close>
  and \<^verbatim>\<open>fetch_history\<close> return their empty value there.
\<close>

theorem request_failure_propagates:
  "get_market_chart (\<lambda>url ps. Raises e) tdm coin days = Inl e \<and>
   get_markets_for_cards (\<lambda>url ps. Raises e) ids = Inl e \<and>
   get_market_tickers (\<lambda>url. Raises e) coin = Inl e \<and>
   get_market_chart (\<lambda>url ps. Response st None) tdm coin days = Inl JSONDecodeError \<and>
   get_markets_for_cards (\<lambda>url ps. Response st None) ids = Inl JSONDecodeError \<and>
   get_market_tickers (\<lambda>url. Response st None) coin = Inl JSONDecodeError \<and>
   av_fetch_daily_series (\<lambda>ps. Raises e) td sf ''AAPL'' key = [] \<and>
   av_fetch_daily_series (\<lambda>ps. Raises e) td sf ''BTC-USD'' key = [] \<and>
   av_fetch_daily_series (\<lambda>ps. Response st None) td sf ''AAPL'' key = [] \<and>
   av_fetch_daily_series (\<lambda>ps. Response st None) td sf ''BTC-USD'' key = [] \<and>
   get_fear_greed (\<lambda>url ps. Raises e) sf = \<lparr>fg_value = NaN, fg_classification = JStr []\<rparr> \<and>
   get_fear_greed (\<lambda>url ps. Response st None) sf =
     \<lparr>fg_value = NaN, fg_classification = JStr []\<rparr> \<and>
   hist_rows (fetch_history (\<lambda>ticker start end. Inl e) ticker start end) = []"
  by (simp add: get_market_chart_def get_markets_for_cards_def get_market_tickers_def
      av_fetch_daily_series_def av_fetch_daily_series_try_def crypto_series_def
      equity_series_def endswith_def unpack2_def get_fear_greed_def get_fear_greed_try_def
      fetch_history_def fetch_history_try_def)

text \<open>
  C5, at the failing input. On the empty list of markets \<^verbatim>\<open>get_markets_for_cards\<close>
  raises \<^verbatim>\<open>KeyError\<close>: the frame of no records has no column, the \<^verbatim>\<open>else\<close> branch adds
  \<^verbatim>\<open>sparkline\<close>, and the final selection misses the other five columns. On the empty
  object \<^verbatim>\<open>get_market_chart\<close> returns the empty frame and \<^verbatim>\<open>av_fetch_daily_series\<close>
  the empty series, for an equity and for a crypto symbol.
\<close>

theorem empty_payloads:
  "get_markets_for_cards (\<lambda>url ps. Response st (Some [])) ids = Inl KeyError \<and>
   get_market_chart (\<lambda>url ps. Response st (Some \<lparr>prices = None, market_caps = None\<rparr>))
     tdm coin days = Inr [] \<and>
   av_fetch_daily_series (\<lambda>ps. Response st (Some (JObj []))) td sf ''AAPL'' key = [] \<and>
   av_fetch_daily_series (\<lambda>ps. Response st (Some (JObj []))) td sf ''BTC-USD'' key = []"
  by (simp add: get_markets_for_cards_def frame_columns_def card_columns_def
      get_market_chart_def merge_left_def
      av_fetch_daily_series_def av_fetch_daily_series_try_def crypto_series_def
      equity_series_def endswith_def unpack2_def dict_get_def dict_items_def
      sort_values_Date_def)

end
